theory Spec2Isabelle
  imports Complex_Main "HOL-Library.AList"
begin

section \<open>Values, errors and the Python operations the linker applies to them\<close>

text \<open>
  The linker works on what \<^verbatim>\<open>r.json()\<close> returns: \<^verbatim>\<open>None\<close>, booleans, integers, floats,
  text, lists and dictionaries with text keys. A dictionary is an association list in
  insertion order; a parsed dictionary has distinct keys, and a key is looked up with
  \<open>map_of\<close>. An integer and a float are different values even when they are equal as
  numbers (\<^verbatim>\<open>str\<close> gives \<^verbatim>\<open>1\<close> and \<^verbatim>\<open>1.0\<close>). A finite float is kept by its value, but for
  \<^verbatim>\<open>-0.0\<close>, which has the value of \<^verbatim>\<open>0.0\<close> and another text; \<^verbatim>\<open>nan\<close> and the infinities,
  which JSON does not have, are not modelled. Text is a \<open>string\<close>.
\<close>

datatype json =
  JNull
| JBool bool
| JInt int
| JFloat rat
| JNegZero
| JStr string
| JList "json list"
| JObj "(string \<times> json) list"

text \<open>The exceptions the code can raise; each raise is a value \<open>Inl e\<close>.\<close>

datatype py_error =
  KeyError string
| IndexError
| TypeError
| AttributeError
| JSONDecodeError
| RequestException string


definition and_then :: "py_error + 'a \<Rightarrow> ('a \<Rightarrow> py_error + 'b) \<Rightarrow> py_error + 'b" where
  "and_then m f = (case m of Inl e \<Rightarrow> Inl e | Inr x \<Rightarrow> f x)"

text \<open>Truth value of an object, as \<^verbatim>\<open>if not label\<close> and \<^verbatim>\<open>if limit\<close> test it.\<close>

fun truthy :: "json \<Rightarrow> bool" where
  "truthy JNull = False"
| "truthy (JBool b) = b"
| "truthy (JInt n) = (n \<noteq> 0)"
| "truthy (JFloat x) = (x \<noteq> 0)"
| "truthy JNegZero = False"
| "truthy (JStr s) = (s \<noteq> [])"
| "truthy (JList xs) = (xs \<noteq> [])"
| "truthy (JObj kvs) = (kvs \<noteq> [])"

text \<open>
  \<^verbatim>\<open>v[0]\<close>: the first element of a list, the first character of a text, \<^verbatim>\<open>IndexError\<close>
  when either is empty; a dictionary has text keys only, so the key \<^verbatim>\<open>0\<close> is missing;
  anything else is not subscriptable.
\<close>

fun subscript0 :: "json \<Rightarrow> py_error + json" where
  "subscript0 (JList []) = Inl IndexError"
| "subscript0 (JList (x # xs)) = Inr x"
| "subscript0 (JStr []) = Inl IndexError"
| "subscript0 (JStr (c # cs)) = Inr (JStr [c])"
| "subscript0 (JObj kvs) = Inl (KeyError ''0'')"
| "subscript0 v = Inl TypeError"

text \<open>\<^verbatim>\<open>d[k]\<close> on a dictionary, and on any decoded value.\<close>

definition getitem :: "(string \<times> json) list \<Rightarrow> string \<Rightarrow> py_error + json" where
  "getitem d k = (case map_of d k of None \<Rightarrow> Inl (KeyError k) | Some v \<Rightarrow> Inr v)"

fun getitem_json :: "json \<Rightarrow> string \<Rightarrow> py_error + json" where
  "getitem_json (JObj d) k = getitem d k"
| "getitem_json v k = Inl TypeError"

text \<open>
  \<^verbatim>\<open>for x in v\<close>: a list yields its elements, a dictionary its keys, a text its
  characters; nothing else is iterable.
\<close>

fun iterate :: "json \<Rightarrow> py_error + json list" where
  "iterate (JList xs) = Inr xs"
| "iterate (JObj kvs) = Inr (map (\<lambda>kv. JStr (fst kv)) kvs)"
| "iterate (JStr s) = Inr (map (\<lambda>c. JStr [c]) s)"
| "iterate v = Inl TypeError"

text \<open>
  A value used as a dictionary key: lists and dictionaries are unhashable, and numbers
  that are equal are the same key, so a boolean and a float with an integer value stand
  for that integer (\<^verbatim>\<open>True == 1 == 1.0\<close>).
\<close>

fun dict_key :: "json \<Rightarrow> py_error + json" where
  "dict_key (JList xs) = Inl TypeError"
| "dict_key (JObj kvs) = Inl TypeError"
| "dict_key (JBool b) = Inr (JInt (if b then 1 else 0))"
| "dict_key (JFloat x) = Inr (if of_int \<lfloor>x\<rfloor> = x then JInt \<lfloor>x\<rfloor> else JFloat x)"
| "dict_key JNegZero = Inr (JInt 0)"
| "dict_key v = Inr v"

text \<open>
  The builtins of Python whose results depend on the interpreter are parameters:
  \<^verbatim>\<open>str\<close> on a value that is not text, \<^verbatim>\<open>str.lower\<close>, and \<^verbatim>\<open>str\<close> on an exception.
\<close>

record python =
  str_json :: "json \<Rightarrow> string"
  lower :: "string \<Rightarrow> string"
  str_exc :: "py_error \<Rightarrow> string"

definition py_str :: "python \<Rightarrow> json \<Rightarrow> string" where
  "py_str py v = (case v of JStr s \<Rightarrow> s | _ \<Rightarrow> str_json py v)"

section \<open>The index service and the observable state\<close>

text \<open>
  A request as \<^verbatim>\<open>requests.get(url, params, headers)\<close> and
  \<^verbatim>\<open>requests.post(url, data, params)\<close> build it. The body of a POST is the UTF-8
  encoding of the text; the model keeps the text.
\<close>

datatype request =
  Get string "(string \<times> json) list" "(string \<times> string) list"
| Post string string "(string \<times> json) list"

fun params :: "request \<Rightarrow> (string \<times> json) list" where
  "params (Get u ps hs) = ps"
| "params (Post u b ps) = ps"

text \<open>A reply: \<^verbatim>\<open>r.text\<close>, and \<^verbatim>\<open>r.json()\<close>, which raises when the body does not decode.\<close>

record response =
  r_text :: string
  r_json :: "json option"

text \<open>
  The index answers a request with a reply or a transport error; the answer may depend
  on the requests sent before (the index may change between two calls).
\<close>

type_synonym service = "request list \<Rightarrow> request \<Rightarrow> py_error + response"

type_synonym entity = "(string \<times> json) list"

record entry =
  result :: "entity list"

text \<open>
  What a call can change: the requests sent so far, the two output streams, and the
  dictionary that is the default value of \<^verbatim>\<open>normalized_entities\<close> in
  \<^verbatim>\<open>dictionary_matcher\<close>, created once when the function is defined.
\<close>

record world =
  sent :: "request list"
  stdout :: "string list"
  stderr :: "string list"
  dm_default :: "json \<rightharpoonup> entry"

definition requests_send :: "service \<Rightarrow> request \<Rightarrow> world \<Rightarrow> (py_error + response) \<times> world" where
  "requests_send srv rq w = (srv (sent w) rq, w\<lparr>sent := sent w @ [rq]\<rparr>)"

section \<open>The linker\<close>

record Entity_Linker =
  solr :: string
  solr_core :: string
  fields_list :: "string list"
  verbose :: bool

definition Entity_Linker_class :: Entity_Linker where
  "Entity_Linker_class =
     \<lparr> solr = ''http://localhost:8983/solr/'',
       solr_core = ''opensemanticsearch-entities'',
       fields_list = [''id'', ''score'', ''type_ss'', ''label_ss'', ''label_txt'',
                      ''preferred_label_s'', ''preferred_label_txt'',
                      ''skos_prefLabel_ss'', ''skos_prefLabel_txt'',
                      ''skos_altLabel_ss'', ''skos_altLabel_txt'',
                      ''skos_hiddenLabel_ss'', ''skos_hiddenLabel_txt''],
       verbose = False \<rparr>"

subsection \<open>Choosing the label\<close>

text \<open>
  Lines 89 to 107 of \<^verbatim>\<open>query_entities\<close> and lines 180 to 198 of \<^verbatim>\<open>dictionary_matcher\<close>
  are the same statements. \<open>label_step\<close> is one guarded block
  \<^verbatim>\<open>if not label: if f in record: label = record[f][0]\<close>.
\<close>

definition label_step :: "(string \<times> json) list \<Rightarrow> string \<Rightarrow> json \<Rightarrow> py_error + json" where
  "label_step d f label =
     (if truthy label then Inr label
      else (case map_of d f of None \<Rightarrow> Inr label | Some v \<Rightarrow> subscript0 v))"

definition choose_label :: "(string \<times> json) list \<Rightarrow> py_error + json" where
  "choose_label d =
     and_then (label_step d ''skos_prefLabel_ss''
                 (case map_of d ''preferred_label_s'' of None \<Rightarrow> JNull | Some v \<Rightarrow> v))
       (\<lambda>l1. and_then (label_step d ''label_ss'' l1)
       (\<lambda>l2. and_then (label_step d ''skos_altLabel_ss'' l2)
       (\<lambda>l3. if truthy l3 then Inr l3 else getitem d ''id'')))"

definition choose_types :: "(string \<times> json) list \<Rightarrow> json" where
  "choose_types d = (case map_of d ''type_ss'' of None \<Rightarrow> JList [] | Some v \<Rightarrow> v)"

subsection \<open>\<^verbatim>\<open>query_entities\<close>\<close>

text \<open>
  The scan of lines 113 to 124: every name of \<^verbatim>\<open>self.fields\<close> that the record has, but
  \<^verbatim>\<open>score\<close>; a value that is not a list is wrapped in one.
\<close>

definition field_values :: "json \<Rightarrow> json list" where
  "field_values v = (case v of JList xs \<Rightarrow> xs | _ \<Rightarrow> [v])"

definition scan_values :: "python \<Rightarrow> string \<Rightarrow> json list \<Rightarrow> bool \<Rightarrow> bool" where
  "scan_values py q vs m =
     fold (\<lambda>v m'. if lower py (py_str py v) = lower py q then True else m') vs m"

definition scan_match :: "Entity_Linker \<Rightarrow> python \<Rightarrow> string \<Rightarrow> (string \<times> json) list \<Rightarrow> bool" where
  "scan_match self py q d =
     fold (\<lambda>field m.
             (case map_of d field of
                None \<Rightarrow> m
              | Some v \<Rightarrow> if field \<noteq> ''score'' then scan_values py q (field_values v) m else m))
          (fields_list self) False"

text \<open>
  One pass of the loop over the returned records (lines 89 to 134). A record that is
  not a dictionary raises \<^verbatim>\<open>TypeError\<close> at the first membership test or, when these
  tests are all false (a text, a list), at \<^verbatim>\<open>search_result['id']\<close>.
\<close>

definition query_result :: "Entity_Linker \<Rightarrow> python \<Rightarrow> string \<Rightarrow> json \<Rightarrow> py_error + entity" where
  "query_result self py q search_result =
     (case search_result of
        JObj d \<Rightarrow>
          and_then (choose_label d) (\<lambda>label.
          and_then (getitem d ''id'') (\<lambda>i.
          and_then (getitem d ''score'') (\<lambda>sc.
            Inr [(''id'', i), (''name'', label), (''score'', sc),
                 (''match'', JBool (scan_match self py q d)),
                 (''type'', choose_types d)])))
      | _ \<Rightarrow> Inl TypeError)"

primrec results_loop :: "(json \<Rightarrow> py_error + entity) \<Rightarrow> json list \<Rightarrow> entity list \<Rightarrow> py_error + entity list" where
  "results_loop f [] results = Inr results"
| "results_loop f (sr # srs) results = and_then (f sr) (\<lambda>r. results_loop f srs (results @ [r]))"

text \<open>\<^verbatim>\<open>x['response']['docs']\<close>, as the loop iterates over it.\<close>

definition response_docs :: "json \<Rightarrow> py_error + json list" where
  "response_docs x =
     and_then (getitem_json x ''response'') (\<lambda>r. and_then (getitem_json r ''docs'') iterate)"

text \<open>
  The request of one query (lines 52 to 75). A query is the dictionary
  \<^verbatim>\<open>queries[query]\<close>; \<^verbatim>\<open>+\<close> between texts raises \<^verbatim>\<open>TypeError\<close> on anything else.
\<close>

definition select_params :: "Entity_Linker \<Rightarrow> string \<Rightarrow> json \<Rightarrow> (string \<times> json) list" where
  "select_params self q rows =
     [(''wt'', JStr ''json''),
      (''defType'', JStr ''edismax''),
      (''qf'', JList (map JStr
         [''label_ss'', ''label_txt'', ''preferred_label_s^10'', ''preferred_label_txt^5'',
          ''skos_prefLabel_ss^10'', ''skos_prefLabel_txt^5'', ''skos_altLabel_ss^2'',
          ''skos_altLabel_txt'', ''skos_hiddenLabel_ss^2'', ''skos_hiddenLabel_txt''])),
      (''fl'', JList (map JStr (fields_list self))),
      (''q'', JStr ([CHR 0x22] @ q @ [CHR 0x22])),
      (''rows'', rows)]"

definition select_request :: "Entity_Linker \<Rightarrow> (string \<times> json) list \<Rightarrow> json \<Rightarrow> py_error + request" where
  "select_request self qd limit =
     and_then (getitem qd ''query'') (\<lambda>v.
       (case v of
          JStr q \<Rightarrow>
            Inr (Get (solr self @ solr_core self @ ''/select'')
                     (select_params self q (case map_of qd ''limit'' of Some l \<Rightarrow> l | None \<Rightarrow> limit))
                     [(''content-type'', ''application/json'')])
        | _ \<Rightarrow> Inl TypeError))"

definition query_text :: "(string \<times> json) list \<Rightarrow> string" where
  "query_text qd = (case map_of qd ''query'' of Some (JStr q) \<Rightarrow> q | _ \<Rightarrow> [])"

definition print_verbose :: "Entity_Linker \<Rightarrow> string \<Rightarrow> world \<Rightarrow> world" where
  "print_verbose self line w = (if verbose self then w\<lparr>stdout := stdout w @ [line]\<rparr> else w)"

text \<open>
  The body of \<^verbatim>\<open>for query in queries\<close>. The dictionary it fills is local to the call,
  so an exception loses it: the outcome is an error or the new dictionary.
\<close>

definition query_step ::
  "Entity_Linker \<Rightarrow> python \<Rightarrow> service \<Rightarrow> json \<Rightarrow> 'k \<times> (string \<times> json) list \<Rightarrow>
   ('k \<rightharpoonup> entry) \<Rightarrow> world \<Rightarrow> (py_error + ('k \<rightharpoonup> entry)) \<times> world" where
  "query_step self py srv limit kq normalized_entities w =
     (case select_request self (snd kq) limit of
        Inl e \<Rightarrow> (Inl e, w)
      | Inr rq \<Rightarrow>
          (case requests_send srv rq w of
             (Inl e, w1) \<Rightarrow> (Inl e, w1)
           | (Inr r, w1) \<Rightarrow>
               (let w2 = print_verbose self (''Enity linker Solr result: '' @ r_text r) w1 in
                (case r_json r of
                   None \<Rightarrow> (Inl JSONDecodeError, w2)
                 | Some search_results \<Rightarrow>
                     (case and_then (response_docs search_results)
                             (\<lambda>docs. results_loop (query_result self py (query_text (snd kq))) docs []) of
                        Inl e \<Rightarrow> (Inl e, w2)
                      | Inr results \<Rightarrow>
                          (Inr (normalized_entities(fst kq \<mapsto> \<lparr>result = results\<rparr>)), w2))))))"

primrec query_loop ::
  "Entity_Linker \<Rightarrow> python \<Rightarrow> service \<Rightarrow> json \<Rightarrow> ('k \<times> (string \<times> json) list) list \<Rightarrow>
   ('k \<rightharpoonup> entry) \<Rightarrow> world \<Rightarrow> (py_error + ('k \<rightharpoonup> entry)) \<times> world" where
  "query_loop self py srv limit [] normalized_entities w = (Inr normalized_entities, w)"
| "query_loop self py srv limit (kq # kqs) normalized_entities w =
     (case query_step self py srv limit kq normalized_entities w of
        (Inl e, w') \<Rightarrow> (Inl e, w')
      | (Inr normalized_entities', w') \<Rightarrow> query_loop self py srv limit kqs normalized_entities' w')"

text \<open>
  \<^verbatim>\<open>queries\<close> is a dictionary, given by its items in iteration order. The parameter
  \<^verbatim>\<open>normalized_entities\<close> is rebound to a new dictionary on line 46, so the shared default
  is never touched; \<^verbatim>\<open>language\<close>, \<^verbatim>\<open>normalized_label_languages\<close> and \<^verbatim>\<open>text\<close> are not read.
\<close>

definition query_entities ::
  "Entity_Linker \<Rightarrow> python \<Rightarrow> service \<Rightarrow> ('k \<times> (string \<times> json) list) list \<Rightarrow> json \<Rightarrow>
   world \<Rightarrow> (py_error + ('k \<rightharpoonup> entry)) \<times> world" where
  "query_entities self py srv queries limit w = query_loop self py srv limit queries Map.empty w"

text \<open>The value of \<^verbatim>\<open>limit\<close> when the caller omits it.\<close>

definition limit_default :: json where
  "limit_default = JInt 10000"

subsection \<open>\<^verbatim>\<open>dictionary_matcher\<close>\<close>

fun join :: "string \<Rightarrow> string list \<Rightarrow> string" where
  "join sep [] = []"
| "join sep [x] = x"
| "join sep (x # y # ys) = x @ sep @ join sep (y # ys)"

definition tagger_fields :: "string list \<Rightarrow> string list" where
  "tagger_fields additional_result_fields =
     [''id'', ''type_ss'', ''preferred_label_s'', ''skos_prefLabel_ss'', ''label_ss'',
      ''skos_altLabel_ss''] @ additional_result_fields"

definition tagger_params :: "python \<Rightarrow> json \<Rightarrow> string list \<Rightarrow> (string \<times> json) list" where
  "tagger_params py limit additional_result_fields =
     [(''wt'', JStr ''json''),
      (''matchText'', JStr ''true''),
      (''overlaps'', JStr ''NO_SUB''),
      (''fl'', JStr (join '','' (tagger_fields additional_result_fields)))]
     @ (if truthy limit then [(''tagsLimit'', JStr (py_str py limit))] else [])"

definition tagger_request :: "Entity_Linker \<Rightarrow> python \<Rightarrow> string \<Rightarrow> json \<Rightarrow> string \<Rightarrow> string list \<Rightarrow> request" where
  "tagger_request self py text limit tagger additional_result_fields =
     Post (solr self @ solr_core self @ ''/'' @ tagger) text
          (tagger_params py limit additional_result_fields)"

text \<open>
  Lines 211 to 214: a requested field that the record has is stored in the result
  under its own name, after the four fixed keys.
\<close>

definition add_fields :: "(string \<times> json) list \<Rightarrow> string list \<Rightarrow> entity \<Rightarrow> entity" where
  "add_fields d additional_result_fields res =
     fold (\<lambda>field r. (case map_of d field of None \<Rightarrow> r | Some v \<Rightarrow> AList.update field v r))
          additional_result_fields res"

text \<open>
  One pass of the loop over the tagged records (lines 180 to 217): the key under which
  the entry is stored, and the entity. An unhashable id raises on line 216.
\<close>

definition tag_result :: "string list \<Rightarrow> json \<Rightarrow> py_error + json \<times> entity" where
  "tag_result additional_result_fields entity =
     (case entity of
        JObj d \<Rightarrow>
          and_then (choose_label d) (\<lambda>label.
          and_then (getitem d ''id'') (\<lambda>i.
          and_then (dict_key i) (\<lambda>k.
            Inr (k, add_fields d additional_result_fields
                      [(''id'', i), (''name'', label), (''match'', JBool True),
                       (''type'', choose_types d)]))))
      | _ \<Rightarrow> Inl TypeError)"

text \<open>
  The loop writes into the dictionary it was given: when a record raises, the entries
  written for the records before it stay.
\<close>

primrec tag_docs :: "string list \<Rightarrow> json list \<Rightarrow> (json \<rightharpoonup> entry) \<Rightarrow> (py_error + unit) \<times> (json \<rightharpoonup> entry)" where
  "tag_docs additional_result_fields [] normalized_entities = (Inr (), normalized_entities)"
| "tag_docs additional_result_fields (entity # entities) normalized_entities =
     (case tag_result additional_result_fields entity of
        Inl e \<Rightarrow> (Inl e, normalized_entities)
      | Inr (k, res) \<Rightarrow>
          tag_docs additional_result_fields entities (normalized_entities(k \<mapsto> \<lparr>result = [res]\<rparr>)))"

text \<open>
  The function on a given dictionary object: the outcome (the function returns that
  same object), the contents of the object afterwards, and the state. \<^verbatim>\<open>text\<close> is
  \<open>None\<close> for Python's \<^verbatim>\<open>None\<close>, on which \<^verbatim>\<open>text.encode\<close> raises before anything is sent.
\<close>

definition dictionary_matcher_on ::
  "Entity_Linker \<Rightarrow> python \<Rightarrow> service \<Rightarrow> string option \<Rightarrow> json \<Rightarrow> string \<Rightarrow> string list \<Rightarrow>
   (json \<rightharpoonup> entry) \<Rightarrow> world \<Rightarrow> (py_error + unit) \<times> (json \<rightharpoonup> entry) \<times> world" where
  "dictionary_matcher_on self py srv text limit tagger additional_result_fields normalized_entities w =
     (case text of
        None \<Rightarrow> (Inl AttributeError, normalized_entities, w)
      | Some t \<Rightarrow>
          (case requests_send srv (tagger_request self py t limit tagger additional_result_fields) w of
             (Inl e, w1) \<Rightarrow> (Inl e, normalized_entities, w1)
           | (Inr r, w1) \<Rightarrow>
               (let w2 = print_verbose self
                           (''Entity linking / Solr Text Tagger result for tagger '' @ tagger
                            @ '': '' @ r_text r) w1 in
                (case r_json r of
                   None \<Rightarrow> (Inl JSONDecodeError, normalized_entities, w2)
                 | Some matches \<Rightarrow>
                     (case response_docs matches of
                        Inl e \<Rightarrow> (Inl e, normalized_entities, w2)
                      | Inr docs \<Rightarrow>
                          (case tag_docs additional_result_fields docs normalized_entities of
                             (res, normalized_entities') \<Rightarrow> (res, normalized_entities', w2)))))))"

text \<open>
  \<^verbatim>\<open>normalized_entities\<close> is \<open>Some m\<close> for a dictionary the caller passes and \<open>None\<close> when
  the caller omits it; the function then works on the one default dictionary, which
  keeps what is written into it.
\<close>

definition dictionary_matcher ::
  "Entity_Linker \<Rightarrow> python \<Rightarrow> service \<Rightarrow> string option \<Rightarrow> json \<Rightarrow> string \<Rightarrow>
   (json \<rightharpoonup> entry) option \<Rightarrow> string list \<Rightarrow> world \<Rightarrow>
   (py_error + unit) \<times> (json \<rightharpoonup> entry) \<times> world" where
  "dictionary_matcher self py srv text limit tagger normalized_entities additional_result_fields w =
     (case normalized_entities of
        Some m \<Rightarrow> dictionary_matcher_on self py srv text limit tagger additional_result_fields m w
      | None \<Rightarrow>
          (case dictionary_matcher_on self py srv text limit tagger additional_result_fields
                  (dm_default w) w of
             (res, m', w') \<Rightarrow> (res, m', w'\<lparr>dm_default := m'\<rparr>)))"

definition tagger_default :: string where
  "tagger_default = ''all_labels_ss_tag''"

subsection \<open>\<^verbatim>\<open>entities\<close>\<close>

definition tagger_message :: "python \<Rightarrow> string \<Rightarrow> py_error \<Rightarrow> string" where
  "tagger_message py tagger e =
     ''Exception using Solr Text Tagger '' @ tagger @ '': '' @ str_exc py e @ [CHR 0x0A]"

text \<open>
  The loop of lines 236 to 240. The dictionary passed to \<^verbatim>\<open>dictionary_matcher\<close> is the
  object that \<^verbatim>\<open>normalized_entities\<close> names in \<^verbatim>\<open>entities\<close>, so what a failing call wrote
  before it raised is seen after the \<^verbatim>\<open>except\<close>.
\<close>

primrec tagger_loop ::
  "Entity_Linker \<Rightarrow> python \<Rightarrow> service \<Rightarrow> string option \<Rightarrow> json \<Rightarrow> string list \<Rightarrow> string list \<Rightarrow>
   (json \<rightharpoonup> entry) \<Rightarrow> world \<Rightarrow> (json \<rightharpoonup> entry) \<times> world" where
  "tagger_loop self py srv text limit additional_result_fields [] normalized_entities w =
     (normalized_entities, w)"
| "tagger_loop self py srv text limit additional_result_fields (tagger # taggers) normalized_entities w =
     (case dictionary_matcher self py srv text limit tagger (Some normalized_entities)
             additional_result_fields w of
        (Inr u, normalized_entities', w') \<Rightarrow>
          tagger_loop self py srv text limit additional_result_fields taggers normalized_entities' w'
      | (Inl e, normalized_entities', w') \<Rightarrow>
          tagger_loop self py srv text limit additional_result_fields taggers normalized_entities'
            (w'\<lparr>stderr := stderr w' @ [tagger_message py tagger e]\<rparr>))"

text \<open>
  \<^verbatim>\<open>queries\<close> is \<open>None\<close> for Python's \<^verbatim>\<open>None\<close>; \<^verbatim>\<open>if queries\<close> holds for a dictionary that
  is not empty. Query keys are dictionary keys already and are stored as they are.
\<close>

definition entities ::
  "Entity_Linker \<Rightarrow> python \<Rightarrow> service \<Rightarrow> (json \<times> (string \<times> json) list) list option \<Rightarrow>
   string option \<Rightarrow> json \<Rightarrow> string list \<Rightarrow> string list \<Rightarrow> world \<Rightarrow>
   (py_error + (json \<rightharpoonup> entry)) \<times> world" where
  "entities self py srv queries text limit taggers additional_result_fields w =
     (case queries of
        Some (kq # kqs) \<Rightarrow> query_entities self py srv (kq # kqs) limit w
      | _ \<Rightarrow>
          (case tagger_loop self py srv text limit additional_result_fields taggers Map.empty w of
             (normalized_entities, w') \<Rightarrow> (Inr normalized_entities, w')))"

definition taggers_default :: "string list" where
  "taggers_default = [''all_labels_ss_tag'']"

section \<open>The statements of the specification\<close>

subsection \<open>The fallback order of the display name\<close>

text \<open>
  The first entry of a label set. A label set is multi-valued, a list; a value that is
  not a list has no first entry.
\<close>

fun first_entry :: "json \<Rightarrow> json option" where
  "first_entry (JList (x # xs)) = Some x"
| "first_entry v = None"

text \<open>The three label sets of a record are lists, as the data model has them.\<close>

fun is_list :: "json \<Rightarrow> bool" where
  "is_list (JList xs) = True"
| "is_list v = False"

definition label_sets_are_lists :: "(string \<times> json) list \<Rightarrow> bool" where
  "label_sets_are_lists d =
     (\<forall>f \<in> set [''skos_prefLabel_ss'', ''label_ss'', ''skos_altLabel_ss''].
        case map_of d f of None \<Rightarrow> True | Some v \<Rightarrow> is_list v)"

text \<open>
  A value is empty when it is the empty text, the empty list or dictionary,
  \<^verbatim>\<open>None\<close>, \<^verbatim>\<open>False\<close> or a zero.
\<close>

definition non_empty :: "json \<Rightarrow> bool" where
  "non_empty v =
     (v \<notin> set [JStr [], JList [], JObj [], JNull, JBool False, JInt 0, JFloat 0, JNegZero])"

text \<open>The first candidate, in the given order, that is present and not empty.\<close>

fun first_non_empty :: "json option list \<Rightarrow> json option" where
  "first_non_empty [] = None"
| "first_non_empty (None # cs) = first_non_empty cs"
| "first_non_empty (Some v # cs) = (if non_empty v then Some v else first_non_empty cs)"

definition label_candidates :: "(string \<times> json) list \<Rightarrow> json option list" where
  "label_candidates d =
     [map_of d ''preferred_label_s'',
      Option.bind (map_of d ''skos_prefLabel_ss'') first_entry,
      Option.bind (map_of d ''label_ss'') first_entry,
      Option.bind (map_of d ''skos_altLabel_ss'') first_entry]"

definition fallback_name :: "(string \<times> json) list \<Rightarrow> json option" where
  "fallback_name d =
     (case first_non_empty (label_candidates d) of
        Some x \<Rightarrow> Some x
      | None \<Rightarrow> map_of d ''id'')"

definition no_label_fields :: "(string \<times> json) list \<Rightarrow> bool" where
  "no_label_fields d =
     (map_of d ''preferred_label_s'' = None \<and> map_of d ''skos_prefLabel_ss'' = None \<and>
      map_of d ''label_ss'' = None \<and> map_of d ''skos_altLabel_ss'' = None)"

text \<open>The label that one more candidate leaves, as a guarded block of the code does.\<close>

definition pick :: "json \<Rightarrow> json option \<Rightarrow> json" where
  "pick l c = (if truthy l then l else (case c of None \<Rightarrow> l | Some x \<Rightarrow> x))"

subsection \<open>The match flag\<close>

definition ci_equal :: "python \<Rightarrow> string \<Rightarrow> string \<Rightarrow> bool" where
  "ci_equal py a b = (lower py a = lower py b)"

text \<open>
  Some value of some projected field other than \<^verbatim>\<open>score\<close> equals the query text, case
  ignored: a list-valued field by any of its elements, a scalar field by its one value.
\<close>

definition some_value_equals :: "Entity_Linker \<Rightarrow> python \<Rightarrow> string \<Rightarrow> (string \<times> json) list \<Rightarrow> bool" where
  "some_value_equals self py q d =
     (\<exists>field \<in> set (fields_list self). field \<noteq> ''score'' \<and>
        (case map_of d field of
           None \<Rightarrow> False
         | Some (JList xs) \<Rightarrow> \<exists>value \<in> set xs. ci_equal py (py_str py value) q
         | Some v \<Rightarrow> ci_equal py (py_str py v) q))"

subsection \<open>Concrete inputs for the closed examples\<close>

text \<open>
  An interpreter for the examples: lower case on ASCII letters. The examples compare
  text values only and their index ignores the request, so \<^verbatim>\<open>str\<close> on other values is
  not exercised.
\<close>

definition ascii_lower :: "string \<Rightarrow> string" where
  "ascii_lower s =
     map (\<lambda>c. case map_of (zip ''ABCDEFGHIJKLMNOPQRSTUVWXYZ'' ''abcdefghijklmnopqrstuvwxyz'') c of
                Some l \<Rightarrow> l | None \<Rightarrow> c) s"

definition python_sample :: python where
  "python_sample = \<lparr> str_json = (\<lambda>v. []), lower = ascii_lower, str_exc = (\<lambda>e. ''error'') \<rparr>"

text \<open>
  An index for the examples: it gives the listed answers in turn, whatever is asked, and
  refuses once they are used up.
\<close>

definition reply :: "json list \<Rightarrow> py_error + response" where
  "reply docs =
     Inr \<lparr> r_text = [], r_json = Some (JObj [(''response'', JObj [(''docs'', JList docs)])]) \<rparr>"

definition scripted :: "(py_error + response) list \<Rightarrow> service" where
  "scripted answers h rq =
     (if length h < length answers then answers ! length h
      else Inl (RequestException ''no answer''))"

definition world0 :: world where
  "world0 = \<lparr> sent = [], stdout = [], stderr = [], dm_default = Map.empty \<rparr>"

subsection \<open>Well-typed label sets\<close>



subsection \<open>The entries a run of taggers writes\<close>

text \<open>
  Writing a list of (key, entity) pairs in order into a dictionary, each as an entry
  whose result list holds that entity.
\<close>

definition store_writes :: "(json \<times> entity) list \<Rightarrow> (json \<rightharpoonup> entry) \<Rightarrow> (json \<rightharpoonup> entry)" where
  "store_writes ws m = fold (\<lambda>ke m'. m'(fst ke \<mapsto> \<lparr>result = [snd ke]\<rparr>)) ws m"

text \<open>The pairs that the records of a reply give, up to the first record that raises.\<close>

primrec writes_of :: "string list \<Rightarrow> json list \<Rightarrow> (json \<times> entity) list" where
  "writes_of fs [] = []"
| "writes_of fs (sr # srs) =
     (case tag_result fs sr of Inl e \<Rightarrow> [] | Inr ke \<Rightarrow> ke # writes_of fs srs)"

text \<open>The records that the index returns to one tagger; none when the call fails before the loop.\<close>

definition tagger_docs ::
  "Entity_Linker \<Rightarrow> python \<Rightarrow> service \<Rightarrow> string option \<Rightarrow> json \<Rightarrow> string \<Rightarrow> string list \<Rightarrow>
   world \<Rightarrow> json list" where
  "tagger_docs self py srv text limit tagger fs w =
     (case text of
        None \<Rightarrow> []
      | Some t \<Rightarrow>
          (case srv (sent w) (tagger_request self py t limit tagger fs) of
             Inl e \<Rightarrow> []
           | Inr r \<Rightarrow>
               (case r_json r of
                  None \<Rightarrow> []
                | Some matches \<Rightarrow>
                    (case response_docs matches of Inl e \<Rightarrow> [] | Inr docs \<Rightarrow> docs))))"

definition tagger_writes ::
  "Entity_Linker \<Rightarrow> python \<Rightarrow> service \<Rightarrow> string option \<Rightarrow> json \<Rightarrow> string \<Rightarrow> string list \<Rightarrow>
   world \<Rightarrow> (json \<times> entity) list" where
  "tagger_writes self py srv text limit tagger fs w =
     writes_of fs (tagger_docs self py srv text limit tagger fs w)"

text \<open>The writes of all taggers in listed order, each in the state the loop has reached.\<close>

primrec all_writes ::
  "Entity_Linker \<Rightarrow> python \<Rightarrow> service \<Rightarrow> string option \<Rightarrow> json \<Rightarrow> string list \<Rightarrow> string list \<Rightarrow>
   (json \<rightharpoonup> entry) \<Rightarrow> world \<Rightarrow> (json \<times> entity) list" where
  "all_writes self py srv text limit fs [] m w = []"
| "all_writes self py srv text limit fs (tagger # taggers) m w =
     tagger_writes self py srv text limit tagger fs w
     @ (case tagger_loop self py srv text limit fs [tagger] m w of
          (m', w') \<Rightarrow> all_writes self py srv text limit fs taggers m' w')"


section \<open>Properties\<close>

subsection \<open>Label selection and the result of one record\<close>

lemma subscript0_list: "is_list v \<Longrightarrow> subscript0 v = Inr x \<Longrightarrow> first_entry v = Some x"
  by (induction v rule: subscript0.induct) auto

lemma label_step_pick:
  assumes "label_step d f l = Inr l'"
    and "case map_of d f of None \<Rightarrow> True | Some v \<Rightarrow> is_list v"
  shows "l' = pick l (Option.bind (map_of d f) first_entry)"
  using assms
  by (auto simp: label_step_def pick_def split: if_splits option.splits dest: subscript0_list)

lemma non_empty_truthy: "non_empty v = truthy v"
  by (cases v) (auto simp: non_empty_def)

lemma first_non_empty_pick:
  "(case first_non_empty [c0, c1, c2, c3] of Some x \<Rightarrow> Some x | None \<Rightarrow> i) =
   (if truthy (pick (pick (pick (case c0 of None \<Rightarrow> JNull | Some v \<Rightarrow> v) c1) c2) c3)
    then Some (pick (pick (pick (case c0 of None \<Rightarrow> JNull | Some v \<Rightarrow> v) c1) c2) c3) else i)"
  by (cases c0; cases c1; cases c2; cases c3) (simp_all add: pick_def non_empty_truthy)

lemma choose_label_steps:
  assumes "choose_label d = Inr l"
  shows "\<exists>l1 l2 l3.
           label_step d ''skos_prefLabel_ss''
             (case map_of d ''preferred_label_s'' of None \<Rightarrow> JNull | Some v \<Rightarrow> v) = Inr l1 \<and>
           label_step d ''label_ss'' l1 = Inr l2 \<and>
           label_step d ''skos_altLabel_ss'' l2 = Inr l3 \<and>
           (if truthy l3 then l = l3 else map_of d ''id'' = Some l)"
proof -
  from assms obtain l1 l2 l3 where
    s: "label_step d ''skos_prefLabel_ss''
          (case map_of d ''preferred_label_s'' of None \<Rightarrow> JNull | Some v \<Rightarrow> v) = Inr l1"
       "label_step d ''label_ss'' l1 = Inr l2"
       "label_step d ''skos_altLabel_ss'' l2 = Inr l3"
    and fin: "(if truthy l3 then Inr l3 else getitem d ''id'') = Inr l"
    unfolding choose_label_def and_then_def by (auto split: sum.splits)
  from fin have "if truthy l3 then l = l3 else map_of d ''id'' = Some l"
    by (auto simp: getitem_def split: if_splits option.splits)
  with s show ?thesis by blast
qed

lemma choose_label_fallback:
  assumes "choose_label d = Inr l" and "label_sets_are_lists d"
  shows "fallback_name d = Some l"
proof -
  from choose_label_steps[OF assms(1)] obtain l1 l2 l3 where
    s1: "label_step d ''skos_prefLabel_ss''
           (case map_of d ''preferred_label_s'' of None \<Rightarrow> JNull | Some v \<Rightarrow> v) = Inr l1"
    and s2: "label_step d ''label_ss'' l1 = Inr l2"
    and s3: "label_step d ''skos_altLabel_ss'' l2 = Inr l3"
    and fin: "if truthy l3 then l = l3 else map_of d ''id'' = Some l"
    by blast
  from assms(2) have t:
    "case map_of d ''skos_prefLabel_ss'' of None \<Rightarrow> True | Some v \<Rightarrow> is_list v"
    "case map_of d ''label_ss'' of None \<Rightarrow> True | Some v \<Rightarrow> is_list v"
    "case map_of d ''skos_altLabel_ss'' of None \<Rightarrow> True | Some v \<Rightarrow> is_list v"
    by (simp_all add: label_sets_are_lists_def)
  from label_step_pick[OF s1 t(1)] label_step_pick[OF s2 t(2)] label_step_pick[OF s3 t(3)]
  have "l3 = pick (pick (pick (case map_of d ''preferred_label_s'' of None \<Rightarrow> JNull | Some v \<Rightarrow> v)
             (Option.bind (map_of d ''skos_prefLabel_ss'') first_entry))
             (Option.bind (map_of d ''label_ss'') first_entry))
             (Option.bind (map_of d ''skos_altLabel_ss'') first_entry)"
    by simp
  with fin show ?thesis
    unfolding fallback_name_def label_candidates_def first_non_empty_pick
    by (auto split: if_splits)
qed

lemma choose_label_truthy_or_id:
  "choose_label d = Inr l \<Longrightarrow> truthy l \<or> map_of d ''id'' = Some l"
  by (auto dest!: choose_label_steps split: if_splits)

lemma choose_label_no_labels: "no_label_fields d \<Longrightarrow> choose_label d = getitem d ''id''"
  by (simp add: no_label_fields_def choose_label_def label_step_def and_then_def)

lemma choose_label_name:
  assumes "choose_label d = Inr l"
  shows "(label_sets_are_lists d \<longrightarrow> fallback_name d = Some l) \<and>
         (no_label_fields d \<longrightarrow> map_of d ''id'' = Some l) \<and>
         ((\<forall>i. map_of d ''id'' = Some i \<longrightarrow> non_empty i) \<longrightarrow> non_empty l)"
proof (intro conjI impI)
  assume "label_sets_are_lists d"
  with assms show "fallback_name d = Some l" by (rule choose_label_fallback)
next
  assume "no_label_fields d"
  from choose_label_no_labels[OF this] assms show "map_of d ''id'' = Some l"
    by (auto simp: getitem_def split: option.splits)
next
  assume "\<forall>i. map_of d ''id'' = Some i \<longrightarrow> non_empty i"
  with choose_label_truthy_or_id[OF assms] show "non_empty l"
    by (auto simp: non_empty_truthy)
qed

lemma scan_values_iff:
  "scan_values py q vs m = (m \<or> (\<exists>v \<in> set vs. ci_equal py (py_str py v) q))"
  unfolding scan_values_def by (induction vs arbitrary: m) (auto simp: ci_equal_def)

lemma scan_fold_iff:
  "fold (\<lambda>field m.
             (case map_of d field of
                None \<Rightarrow> m
              | Some v \<Rightarrow> if field \<noteq> ''score'' then scan_values py q (field_values v) m else m)) fs m0
   = (m0 \<or> (\<exists>field \<in> set fs. field \<noteq> ''score'' \<and>
        (case map_of d field of
           None \<Rightarrow> False
         | Some v \<Rightarrow> \<exists>value \<in> set (field_values v). ci_equal py (py_str py value) q)))"
  by (induction fs arbitrary: m0) (auto simp: scan_values_iff split: option.splits)

lemma field_values_ex:
  "(\<exists>value \<in> set (field_values v). P value) =
     (case v of JList xs \<Rightarrow> \<exists>value \<in> set xs. P value | _ \<Rightarrow> P v)"
  by (cases v) (simp_all add: field_values_def)

lemma scan_match_iff: "scan_match self py q d = some_value_equals self py q d"
proof -
  have "(case map_of d field of
           None \<Rightarrow> False
         | Some v \<Rightarrow> \<exists>value \<in> set (field_values v). ci_equal py (py_str py value) q)
        = (case map_of d field of
           None \<Rightarrow> False
         | Some (JList xs) \<Rightarrow> \<exists>value \<in> set xs. ci_equal py (py_str py value) q
         | Some v \<Rightarrow> ci_equal py (py_str py v) q)" for field
    by (cases "map_of d field") (simp_all add: field_values_ex split: json.splits)
  then show ?thesis
    unfolding scan_match_def some_value_equals_def scan_fold_iff by simp
qed

lemma query_result_Inr:
  assumes "query_result self py q sr = Inr e"
  shows "\<exists>d label i sc. sr = JObj d \<and> choose_label d = Inr label \<and> map_of d ''id'' = Some i
           \<and> map_of d ''score'' = Some sc
           \<and> e = [(''id'', i), (''name'', label), (''score'', sc),
                  (''match'', JBool (scan_match self py q d)), (''type'', choose_types d)]"
  using assms unfolding query_result_def and_then_def getitem_def
  by (cases sr) (auto split: sum.splits option.splits)

lemma map_of_add_fields:
  "map_of (add_fields d fs r) k =
     (if k \<in> set fs \<and> map_of d k \<noteq> None then map_of d k else map_of r k)"
  unfolding add_fields_def
  by (induction fs arbitrary: r) (auto simp: update_conv' split: option.splits)

lemma tag_result_Inr:
  assumes "tag_result fs sr = Inr (k, e)"
  shows "\<exists>d label i. sr = JObj d \<and> choose_label d = Inr label \<and> map_of d ''id'' = Some i
           \<and> dict_key i = Inr k
           \<and> e = add_fields d fs [(''id'', i), (''name'', label), (''match'', JBool True),
                                   (''type'', choose_types d)]"
  using assms unfolding tag_result_def and_then_def getitem_def
  by (cases sr) (auto split: sum.splits option.splits)

subsection \<open>The display name\<close>

text \<open>
  C1 (amended). For a record that \<^verbatim>\<open>query_entities\<close> or \<^verbatim>\<open>dictionary_matcher\<close> turns into an
  entity, the name of the entity is as follows. In \<^verbatim>\<open>dictionary_matcher\<close>, when \<^verbatim>\<open>name\<close> is a
  requested additional field that the record has, the name is the record's value of that
  field. In every other case: if the label sets of the record are lists, the name is the
  first of the preferred label, the first entry of the preferred-label set, the first
  entry of the plain-label set and the first entry of the alt-label set, each taken only
  when present and not empty, and else the id; a record with none of the four label
  fields gets its id; and the name is not empty when the id is not.
\<close>

theorem entity_name_fallback:
  "(query_result self py q (JObj d) = Inr e \<longrightarrow>
      (\<exists>l. map_of e ''name'' = Some l \<and>
           (label_sets_are_lists d \<longrightarrow> fallback_name d = Some l) \<and>
           (no_label_fields d \<longrightarrow> map_of d ''id'' = Some l) \<and>
           ((\<forall>i. map_of d ''id'' = Some i \<longrightarrow> non_empty i) \<longrightarrow> non_empty l))) \<and>
   (tag_result fs (JObj d) = Inr (k, e') \<longrightarrow>
      (if ''name'' \<in> set fs \<and> map_of d ''name'' \<noteq> None
       then map_of e' ''name'' = map_of d ''name''
       else (\<exists>l. map_of e' ''name'' = Some l \<and>
               (label_sets_are_lists d \<longrightarrow> fallback_name d = Some l) \<and>
               (no_label_fields d \<longrightarrow> map_of d ''id'' = Some l) \<and>
               ((\<forall>i. map_of d ''id'' = Some i \<longrightarrow> non_empty i) \<longrightarrow> non_empty l))))"
proof (intro conjI impI)
  assume "query_result self py q (JObj d) = Inr e"
  from query_result_Inr[OF this] obtain label where l: "choose_label d = Inr label"
    and n: "map_of e ''name'' = Some label" by auto
  from choose_label_name[OF l] n
  show "\<exists>l. map_of e ''name'' = Some l \<and>
           (label_sets_are_lists d \<longrightarrow> fallback_name d = Some l) \<and>
           (no_label_fields d \<longrightarrow> map_of d ''id'' = Some l) \<and>
           ((\<forall>i. map_of d ''id'' = Some i \<longrightarrow> non_empty i) \<longrightarrow> non_empty l)"
    by blast
next
  assume "tag_result fs (JObj d) = Inr (k, e')"
  from tag_result_Inr[OF this] obtain label i where
    l: "choose_label d = Inr label"
    and e': "e' = add_fields d fs [(''id'', i), (''name'', label), (''match'', JBool True),
                                   (''type'', choose_types d)]"
    by auto
  show "if ''name'' \<in> set fs \<and> map_of d ''name'' \<noteq> None
       then map_of e' ''name'' = map_of d ''name''
       else (\<exists>l. map_of e' ''name'' = Some l \<and>
               (label_sets_are_lists d \<longrightarrow> fallback_name d = Some l) \<and>
               (no_label_fields d \<longrightarrow> map_of d ''id'' = Some l) \<and>
               ((\<forall>i. map_of d ''id'' = Some i \<longrightarrow> non_empty i) \<longrightarrow> non_empty l))"
  proof (cases "''name'' \<in> set fs \<and> map_of d ''name'' \<noteq> None")
    case True
    then have "map_of e' ''name'' = map_of d ''name''"
      by (simp add: e' map_of_add_fields)
    with True show ?thesis by simp
  next
    case False
    then have "map_of e' ''name'' = Some label"
      by (auto simp: e' map_of_add_fields)
    with choose_label_name[OF l] False show ?thesis by simp
  qed
qed

theorem entity_name_fallback_witness:
  "query_result Entity_Linker_class python_sample ''Paris''
     (JObj [(''id'', JStr ''E2''), (''score'', JFloat 2)])
     = Inr [(''id'', JStr ''E2''), (''name'', JStr ''E2''), (''score'', JFloat 2),
            (''match'', JBool False), (''type'', JList [])]
   \<and> no_label_fields [(''id'', JStr ''E2''), (''score'', JFloat 2)]
   \<and> label_sets_are_lists [(''id'', JStr ''E2''), (''score'', JFloat 2)]
   \<and> fallback_name [(''id'', JStr ''E2''), (''score'', JFloat 2)] = Some (JStr ''E2'')
   \<and> non_empty (JStr ''E2'')
   \<and> tag_result [] (JObj [(''id'', JStr ''E1''), (''skos_altLabel_ss'', JList [JStr ''alt1''])])
     = Inr (JStr ''E1'', [(''id'', JStr ''E1''), (''name'', JStr ''alt1''),
                          (''match'', JBool True), (''type'', JList [])])
   \<and> label_sets_are_lists [(''id'', JStr ''E1''), (''skos_altLabel_ss'', JList [JStr ''alt1''])]
   \<and> fallback_name [(''id'', JStr ''E1''), (''skos_altLabel_ss'', JList [JStr ''alt1''])]
     = Some (JStr ''alt1'')
   \<and> tag_result [''name''] (JObj [(''id'', JStr ''E1''), (''name'', JStr ''Lutetia'')])
     = Inr (JStr ''E1'', [(''id'', JStr ''E1''), (''name'', JStr ''Lutetia''),
                          (''match'', JBool True), (''type'', JList [])])"
proof -
  let ?d = "[(''id'', JStr ''E2''), (''score'', JFloat 2)]"
  let ?e = "[(''id'', JStr ''E2''), (''name'', JStr ''E2''), (''score'', JFloat 2),
             (''match'', JBool False), (''type'', JList [])]"
  let ?a = "[(''id'', JStr ''E1''), (''skos_altLabel_ss'', JList [JStr ''alt1''])]"
  let ?ea = "[(''id'', JStr ''E1''), (''name'', JStr ''alt1''), (''match'', JBool True),
              (''type'', JList [])]"
  let ?n = "[(''id'', JStr ''E1''), (''name'', JStr ''Lutetia'')]"
  let ?en = "[(''id'', JStr ''E1''), (''name'', JStr ''Lutetia''), (''match'', JBool True),
              (''type'', JList [])]"
  have q: "query_result Entity_Linker_class python_sample ''Paris'' (JObj ?d) = Inr ?e"
    by (simp add: query_result_def choose_label_def label_step_def and_then_def getitem_def
          scan_match_def scan_values_def field_values_def choose_types_def
          Entity_Linker_class_def python_sample_def ascii_lower_def py_str_def)
  have nl: "no_label_fields ?d" by (simp add: no_label_fields_def)
  have ll: "label_sets_are_lists ?d" by (simp add: label_sets_are_lists_def)
  from entity_name_fallback[THEN conjunct1, THEN mp, OF q] obtain l where
    n: "map_of ?e ''name'' = Some l"
    and f: "label_sets_are_lists ?d \<longrightarrow> fallback_name ?d = Some l"
    and t: "(\<forall>i. map_of ?d ''id'' = Some i \<longrightarrow> non_empty i) \<longrightarrow> non_empty l"
    by blast
  from n have l: "l = JStr ''E2''" by simp
  from f ll l have fb: "fallback_name ?d = Some (JStr ''E2'')" by simp
  from t l have tr: "non_empty (JStr ''E2'')" by (simp add: non_empty_def)
  have ta: "tag_result [] (JObj ?a) = Inr (JStr ''E1'', ?ea)"
    by (simp add: tag_result_def choose_label_def label_step_def and_then_def getitem_def
          add_fields_def choose_types_def)
  have la: "label_sets_are_lists ?a" by (simp add: label_sets_are_lists_def)
  from entity_name_fallback[THEN conjunct2, THEN mp, OF ta] obtain l' where
    n': "map_of ?ea ''name'' = Some l'"
    and f': "label_sets_are_lists ?a \<longrightarrow> fallback_name ?a = Some l'"
    by auto
  from n' have "l' = JStr ''alt1''" by simp
  with f' la have fa: "fallback_name ?a = Some (JStr ''alt1'')" by simp
  have tn: "tag_result [''name''] (JObj ?n) = Inr (JStr ''E1'', ?en)"
    by (simp add: tag_result_def choose_label_def label_step_def and_then_def getitem_def
          add_fields_def choose_types_def)
  from q nl ll fb tr ta la fa tn show ?thesis by blast
qed

text \<open>
  C1 as stated fails in three ways: a record whose id is the empty text and that has no
  label gets the empty name; a requested additional field \<^verbatim>\<open>name\<close> replaces the chosen
  label, also by the empty text on a record with an id and no label; and a label set
  that is a text and not a list gives its first character.
\<close>

theorem entity_name_counterexample:
  "query_result Entity_Linker_class python_sample ''x''
     (JObj [(''id'', JStr ''''), (''score'', JFloat 2)])
     = Inr [(''id'', JStr ''''), (''name'', JStr ''''), (''score'', JFloat 2),
            (''match'', JBool False), (''type'', JList [])]
   \<and> \<not> non_empty (JStr '''')
   \<and> tag_result [''name'']
         (JObj [(''id'', JStr ''E1''), (''preferred_label_s'', JStr ''Paris''),
                (''name'', JStr ''Lutetia'')])
     = Inr (JStr ''E1'', [(''id'', JStr ''E1''), (''name'', JStr ''Lutetia''),
                          (''match'', JBool True), (''type'', JList [])])
   \<and> fallback_name [(''id'', JStr ''E1''), (''preferred_label_s'', JStr ''Paris''),
                     (''name'', JStr ''Lutetia'')] = Some (JStr ''Paris'')
   \<and> tag_result [''name''] (JObj [(''id'', JStr ''E1''), (''name'', JStr '''')])
     = Inr (JStr ''E1'', [(''id'', JStr ''E1''), (''name'', JStr ''''),
                          (''match'', JBool True), (''type'', JList [])])
   \<and> no_label_fields [(''id'', JStr ''E1''), (''name'', JStr '''')]
   \<and> query_result Entity_Linker_class python_sample ''x''
     (JObj [(''id'', JStr ''E1''), (''score'', JFloat 2), (''skos_prefLabel_ss'', JStr ''Paris'')])
     = Inr [(''id'', JStr ''E1''), (''name'', JStr ''P''), (''score'', JFloat 2),
            (''match'', JBool False), (''type'', JList [])]
   \<and> fallback_name [(''id'', JStr ''E1''), (''score'', JFloat 2),
                     (''skos_prefLabel_ss'', JStr ''Paris'')] = Some (JStr ''E1'')"
proof -
  have "query_result Entity_Linker_class python_sample ''x''
     (JObj [(''id'', JStr ''''), (''score'', JFloat 2)])
     = Inr [(''id'', JStr ''''), (''name'', JStr ''''), (''score'', JFloat 2),
            (''match'', JBool False), (''type'', JList [])]"
    by (simp add: query_result_def choose_label_def label_step_def and_then_def getitem_def
          scan_match_def scan_values_def field_values_def choose_types_def
          Entity_Linker_class_def python_sample_def ascii_lower_def py_str_def)
  moreover have "tag_result [''name'']
         (JObj [(''id'', JStr ''E1''), (''preferred_label_s'', JStr ''Paris''),
                (''name'', JStr ''Lutetia'')])
     = Inr (JStr ''E1'', [(''id'', JStr ''E1''), (''name'', JStr ''Lutetia''),
                          (''match'', JBool True), (''type'', JList [])])"
    by (simp add: tag_result_def choose_label_def label_step_def and_then_def getitem_def
          add_fields_def choose_types_def)
  moreover have "fallback_name [(''id'', JStr ''E1''), (''preferred_label_s'', JStr ''Paris''),
                     (''name'', JStr ''Lutetia'')] = Some (JStr ''Paris'')"
    by (simp add: fallback_name_def label_candidates_def non_empty_def)
  moreover have "tag_result [''name''] (JObj [(''id'', JStr ''E1''), (''name'', JStr '''')])
     = Inr (JStr ''E1'', [(''id'', JStr ''E1''), (''name'', JStr ''''),
                          (''match'', JBool True), (''type'', JList [])])"
    by (simp add: tag_result_def choose_label_def label_step_def and_then_def getitem_def
          add_fields_def choose_types_def)
  moreover have "no_label_fields [(''id'', JStr ''E1''), (''name'', JStr '''')]"
    by (simp add: no_label_fields_def)
  moreover have "query_result Entity_Linker_class python_sample ''x''
     (JObj [(''id'', JStr ''E1''), (''score'', JFloat 2), (''skos_prefLabel_ss'', JStr ''Paris'')])
     = Inr [(''id'', JStr ''E1''), (''name'', JStr ''P''), (''score'', JFloat 2),
            (''match'', JBool False), (''type'', JList [])]"
    by (simp add: query_result_def choose_label_def label_step_def and_then_def getitem_def
          scan_match_def scan_values_def field_values_def choose_types_def
          Entity_Linker_class_def python_sample_def ascii_lower_def py_str_def)
  moreover have "fallback_name [(''id'', JStr ''E1''), (''score'', JFloat 2),
                     (''skos_prefLabel_ss'', JStr ''Paris'')] = Some (JStr ''E1'')"
    by (simp add: fallback_name_def label_candidates_def non_empty_def)
  ultimately show ?thesis by (simp add: non_empty_def)
qed

subsection \<open>One query\<close>

lemma results_loop_all2:
  "results_loop f docs rs = Inr es \<Longrightarrow>
     \<exists>es'. es = rs @ es' \<and> list_all2 (\<lambda>sr e. f sr = Inr e) docs es'"
proof (induction docs arbitrary: rs)
  case Nil
  then show ?case by simp
next
  case (Cons sr srs)
  from Cons.prems obtain r where r: "f sr = Inr r"
    and rest: "results_loop f srs (rs @ [r]) = Inr es"
    by (auto simp: and_then_def split: sum.splits)
  from Cons.IH[OF rest] obtain es' where "es = (rs @ [r]) @ es'"
    and "list_all2 (\<lambda>sr e. f sr = Inr e) srs es'" by blast
  with r show ?case by (intro exI[of _ "r # es'"]) simp
qed


lemma sent_print_verbose: "sent (print_verbose self line w) = sent w"
  by (simp add: print_verbose_def)

lemma stderr_print_verbose: "stderr (print_verbose self line w) = stderr w"
  by (simp add: print_verbose_def)

lemma dm_default_print_verbose: "dm_default (print_verbose self line w) = dm_default w"
  by (simp add: print_verbose_def)

lemma select_request_Inr:
  assumes "select_request self qd limit = Inr rq"
  shows "\<exists>q. map_of qd ''query'' = Some (JStr q) \<and> query_text qd = q \<and>
           rq = Get (solr self @ solr_core self @ ''/select'')
                    (select_params self q (case map_of qd ''limit'' of Some l \<Rightarrow> l | None \<Rightarrow> limit))
                    [(''content-type'', ''application/json'')]"
  using assms unfolding select_request_def and_then_def getitem_def query_text_def
  by (auto split: option.splits json.splits)

lemma query_step_Inr:
  assumes "query_step self py srv limit kq acc w = (Inr acc', w')"
  shows "\<exists>q rq r body docs es.
           map_of (snd kq) ''query'' = Some (JStr q) \<and>
           select_request self (snd kq) limit = Inr rq \<and>
           srv (sent w) rq = Inr r \<and> r_json r = Some body \<and> response_docs body = Inr docs \<and>
           list_all2 (\<lambda>sr e. query_result self py q sr = Inr e) docs es \<and>
           acc' = acc(fst kq \<mapsto> \<lparr>result = es\<rparr>) \<and> sent w' = sent w @ [rq]"
proof -
  from assms obtain rq where rq: "select_request self (snd kq) limit = Inr rq"
    unfolding query_step_def by (auto split: sum.splits)
  from select_request_Inr[OF rq] obtain q where q: "map_of (snd kq) ''query'' = Some (JStr q)"
    and qt: "query_text (snd kq) = q" by blast
  from assms rq obtain r where r: "srv (sent w) rq = Inr r"
    unfolding query_step_def requests_send_def by (auto split: sum.splits)
  from assms rq r obtain body where body: "r_json r = Some body"
    unfolding query_step_def requests_send_def by (auto simp: Let_def split: option.splits)
  from assms rq r body obtain es where
    es: "and_then (response_docs body) (\<lambda>docs. results_loop (query_result self py q) docs []) = Inr es"
    and acc': "acc' = acc(fst kq \<mapsto> \<lparr>result = es\<rparr>)"
    and w': "w' = print_verbose self (''Enity linker Solr result: '' @ r_text r) (w\<lparr>sent := sent w @ [rq]\<rparr>)"
    unfolding query_step_def requests_send_def qt by (auto simp: Let_def split: sum.splits)
  from es obtain docs where docs: "response_docs body = Inr docs"
    and loop: "results_loop (query_result self py q) docs [] = Inr es"
    by (auto simp: and_then_def split: sum.splits)
  from results_loop_all2[OF loop]
  have "list_all2 (\<lambda>sr e. query_result self py q sr = Inr e) docs es" by simp
  with q rq r body docs acc' w' show ?thesis
    by (auto simp: sent_print_verbose)
qed

subsection \<open>The match flag of a query result\<close>

lemma verbose_class: "verbose Entity_Linker_class = False"
  by (simp add: Entity_Linker_class_def)

text \<open>
  C2. The entity that \<^verbatim>\<open>query_entities\<close> emits for a record carries \<^verbatim>\<open>match = True\<close> exactly
  when some value of some field of \<^verbatim>\<open>self.fields\<close> that the record has, other than
  \<^verbatim>\<open>score\<close> (a value that is not a list counting as a one-element list), equals the query
  text once both are converted to text and lower-cased; and the text compared is the
  \<^verbatim>\<open>query\<close> entry of the query key under which the entity is stored.
\<close>

theorem match_flag_iff:
  "(query_result self py q (JObj d) = Inr e \<longrightarrow>
      map_of e ''match'' = Some (JBool (some_value_equals self py q d))) \<and>
   (query_step self py srv limit (k, qd) acc w = (Inr acc', w') \<longrightarrow>
      (\<exists>q' docs es. map_of qd ''query'' = Some (JStr q') \<and> acc' k = Some \<lparr>result = es\<rparr> \<and>
         list_all2 (\<lambda>sr e'. \<exists>d'. sr = JObj d' \<and> query_result self py q' sr = Inr e' \<and>
                      map_of e' ''match'' = Some (JBool (some_value_equals self py q' d')))
                   docs es))"
proof (intro conjI impI)
  have one: "map_of e' ''match'' = Some (JBool (some_value_equals self py q' d'))"
    if "query_result self py q' (JObj d') = Inr e'" for q' d' e'
    using query_result_Inr[OF that] by (auto simp: scan_match_iff)
  {
    assume "query_result self py q (JObj d) = Inr e"
    then show "map_of e ''match'' = Some (JBool (some_value_equals self py q d))" by (rule one)
  }
  assume "query_step self py srv limit (k, qd) acc w = (Inr acc', w')"
  from query_step_Inr[OF this] obtain q' docs es where
    q': "map_of qd ''query'' = Some (JStr q')"
    and all: "list_all2 (\<lambda>sr e. query_result self py q' sr = Inr e) docs es"
    and acc': "acc' = acc(k \<mapsto> \<lparr>result = es\<rparr>)"
    by auto
  have "list_all2 (\<lambda>sr e'. \<exists>d'. sr = JObj d' \<and> query_result self py q' sr = Inr e' \<and>
                      map_of e' ''match'' = Some (JBool (some_value_equals self py q' d')))
                   docs es"
    using all
  proof (rule list_all2_mono)
    fix sr e' assume r: "query_result self py q' sr = Inr e'"
    from query_result_Inr[OF r] obtain d' where "sr = JObj d'" by blast
    with r one show "\<exists>d'. sr = JObj d' \<and> query_result self py q' sr = Inr e' \<and>
                      map_of e' ''match'' = Some (JBool (some_value_equals self py q' d'))"
      by blast
  qed
  with q' acc' show "\<exists>q' docs es. map_of qd ''query'' = Some (JStr q') \<and> acc' k = Some \<lparr>result = es\<rparr> \<and>
         list_all2 (\<lambda>sr e'. \<exists>d'. sr = JObj d' \<and> query_result self py q' sr = Inr e' \<and>
                      map_of e' ''match'' = Some (JBool (some_value_equals self py q' d')))
                   docs es"
    by auto
qed

theorem match_flag_iff_witness:
  "fst (query_step Entity_Linker_class python_sample
          (scripted [reply [JObj [(''id'', JStr ''E1''), (''score'', JFloat 3),
                                  (''label_ss'', JList [JStr ''Paris'', JStr ''City of Paris''])],
                            JObj [(''id'', JStr ''E2''), (''score'', JFloat 1),
                                  (''label_ss'', JList [JStr ''Parris''])],
                            JObj [(''id'', JStr ''E3''), (''score'', JFloat 1),
                                  (''preferred_label_s'', JStr ''PARIS'')]]])
          limit_default (JStr ''q0'', [(''query'', JStr ''paris'')]) Map.empty world0)
     = Inr [JStr ''q0'' \<mapsto>
            \<lparr>result = [[(''id'', JStr ''E1''), (''name'', JStr ''Paris''), (''score'', JFloat 3),
                         (''match'', JBool True), (''type'', JList [])],
                        [(''id'', JStr ''E2''), (''name'', JStr ''Parris''), (''score'', JFloat 1),
                         (''match'', JBool False), (''type'', JList [])],
                        [(''id'', JStr ''E3''), (''name'', JStr ''PARIS''), (''score'', JFloat 1),
                         (''match'', JBool True), (''type'', JList [])]]\<rparr>]
   \<and> some_value_equals Entity_Linker_class python_sample ''paris''
         [(''id'', JStr ''E1''), (''score'', JFloat 3),
          (''label_ss'', JList [JStr ''Paris'', JStr ''City of Paris''])]
   \<and> \<not> some_value_equals Entity_Linker_class python_sample ''paris''
         [(''id'', JStr ''E2''), (''score'', JFloat 1), (''label_ss'', JList [JStr ''Parris''])]
   \<and> some_value_equals Entity_Linker_class python_sample ''paris''
         [(''id'', JStr ''E3''), (''score'', JFloat 1), (''preferred_label_s'', JStr ''PARIS'')]"
proof -
  let ?d1 = "[(''id'', JStr ''E1''), (''score'', JFloat 3),
              (''label_ss'', JList [JStr ''Paris'', JStr ''City of Paris''])]"
  let ?d2 = "[(''id'', JStr ''E2''), (''score'', JFloat 1), (''label_ss'', JList [JStr ''Parris''])]"
  let ?d3 = "[(''id'', JStr ''E3''), (''score'', JFloat 1), (''preferred_label_s'', JStr ''PARIS'')]"
  let ?e1 = "[(''id'', JStr ''E1''), (''name'', JStr ''Paris''), (''score'', JFloat 3),
              (''match'', JBool True), (''type'', JList [])]"
  let ?e2 = "[(''id'', JStr ''E2''), (''name'', JStr ''Parris''), (''score'', JFloat 1),
              (''match'', JBool False), (''type'', JList [])]"
  let ?e3 = "[(''id'', JStr ''E3''), (''name'', JStr ''PARIS''), (''score'', JFloat 1),
              (''match'', JBool True), (''type'', JList [])]"
  have q1: "query_result Entity_Linker_class python_sample ''paris'' (JObj ?d1) = Inr ?e1"
    by (simp add: query_result_def choose_label_def label_step_def and_then_def getitem_def
          scan_match_def scan_values_def field_values_def choose_types_def
          Entity_Linker_class_def python_sample_def ascii_lower_def py_str_def)
  have q2: "query_result Entity_Linker_class python_sample ''paris'' (JObj ?d2) = Inr ?e2"
    by (simp add: query_result_def choose_label_def label_step_def and_then_def getitem_def
          scan_match_def scan_values_def field_values_def choose_types_def
          Entity_Linker_class_def python_sample_def ascii_lower_def py_str_def)
  have q3: "query_result Entity_Linker_class python_sample ''paris'' (JObj ?d3) = Inr ?e3"
    by (simp add: query_result_def choose_label_def label_step_def and_then_def getitem_def
          scan_match_def scan_values_def field_values_def choose_types_def
          Entity_Linker_class_def python_sample_def ascii_lower_def py_str_def)
  have step: "fst (query_step Entity_Linker_class python_sample
                (scripted [reply [JObj ?d1, JObj ?d2, JObj ?d3]])
                limit_default (JStr ''q0'', [(''query'', JStr ''paris'')]) Map.empty world0)
              = Inr [JStr ''q0'' \<mapsto> \<lparr>result = [?e1, ?e2, ?e3]\<rparr>]"
    by (simp add: query_step_def select_request_def requests_send_def scripted_def reply_def
          response_docs_def and_then_def getitem_def query_text_def print_verbose_def
          verbose_class world0_def q1 q2 q3)
  from match_flag_iff[THEN conjunct1, THEN mp, OF q1]
  have m1: "some_value_equals Entity_Linker_class python_sample ''paris'' ?d1" by simp
  from match_flag_iff[THEN conjunct1, THEN mp, OF q2]
  have m2: "\<not> some_value_equals Entity_Linker_class python_sample ''paris'' ?d2" by simp
  from match_flag_iff[THEN conjunct1, THEN mp, OF q3]
  have m3: "some_value_equals Entity_Linker_class python_sample ''paris'' ?d3" by simp
  from step m1 m2 m3 show ?thesis by blast
qed

subsection \<open>The loop over the queries\<close>


lemma query_step_transport:
  assumes "select_request self (snd kq) limit = Inr rq" and "srv (sent w) rq = Inl e"
  shows "query_step self py srv limit kq acc w = (Inl e, w\<lparr>sent := sent w @ [rq]\<rparr>)"
  using assms unfolding query_step_def requests_send_def by simp

lemma query_step_decode:
  assumes "select_request self (snd kq) limit = Inr rq" and "srv (sent w) rq = Inr r"
    and "r_json r = None"
  shows "query_step self py srv limit kq acc w =
           (Inl JSONDecodeError,
            print_verbose self (''Enity linker Solr result: '' @ r_text r)
              (w\<lparr>sent := sent w @ [rq]\<rparr>))"
  using assms unfolding query_step_def requests_send_def by (simp add: Let_def)

lemma query_step_sent:
  assumes "query_step self py srv limit kq acc w = (res, w')"
  shows "\<exists>xs. sent w' = sent w @ xs"
  using assms unfolding query_step_def requests_send_def
  by (auto simp: Let_def sent_print_verbose split: sum.splits option.splits)

lemma query_loop_sent:
  "query_loop self py srv limit qs acc w = (res, w') \<Longrightarrow> \<exists>xs. sent w' = sent w @ xs"
proof (induction qs arbitrary: acc w)
  case Nil
  then show ?case by simp
next
  case (Cons kq qs)
  obtain r1 w1 where s: "query_step self py srv limit kq acc w = (r1, w1)"
    by (cases "query_step self py srv limit kq acc w")
  from query_step_sent[OF s] obtain xs where xs: "sent w1 = sent w @ xs" by blast
  show ?case
  proof (cases r1)
    case (Inl e)
    with Cons.prems s xs show ?thesis by auto
  next
    case (Inr a1)
    with Cons.prems s have "query_loop self py srv limit qs a1 w1 = (res, w')" by simp
    from Cons.IH[OF this] xs show ?thesis by auto
  qed
qed

lemma query_loop_Cons_Inr:
  assumes "query_loop self py srv limit (kq # qs) acc w = (Inr m, w')"
  shows "\<exists>a1 w1. query_step self py srv limit kq acc w = (Inr a1, w1) \<and>
                  query_loop self py srv limit qs a1 w1 = (Inr m, w')"
  using assms
  by (cases "query_step self py srv limit kq acc w") (auto split: sum.splits)

lemma query_loop_other_keys:
  "query_loop self py srv limit qs acc w = (Inr m, w') \<Longrightarrow> k \<notin> fst ` set qs \<Longrightarrow> m k = acc k"
proof (induction qs arbitrary: acc w)
  case Nil
  then show ?case by simp
next
  case (Cons kq qs)
  from query_loop_Cons_Inr[OF Cons.prems(1)] obtain a1 w1 where
    s: "query_step self py srv limit kq acc w = (Inr a1, w1)"
    and l: "query_loop self py srv limit qs a1 w1 = (Inr m, w')" by blast
  from query_step_Inr[OF s] obtain es where "a1 = acc(fst kq \<mapsto> \<lparr>result = es\<rparr>)" by blast
  moreover from Cons.prems(2) have "k \<noteq> fst kq" and "k \<notin> fst ` set qs" by auto
  ultimately show ?case using Cons.IH[OF l] by simp
qed

lemma query_loop_member:
  "query_loop self py srv limit qs acc w = (Inr m, w') \<Longrightarrow> (k, qd) \<in> set qs \<Longrightarrow>
   distinct (map fst qs) \<Longrightarrow>
   \<exists>acc0 w0 acc1 w1. query_step self py srv limit (k, qd) acc0 w0 = (Inr acc1, w1) \<and>
      m k = acc1 k \<and> (\<exists>ys. sent w' = sent w1 @ ys)"
proof (induction qs arbitrary: acc w)
  case Nil
  then show ?case by simp
next
  case (Cons kq qs)
  from query_loop_Cons_Inr[OF Cons.prems(1)] obtain a1 w1 where
    s: "query_step self py srv limit kq acc w = (Inr a1, w1)"
    and l: "query_loop self py srv limit qs a1 w1 = (Inr m, w')" by blast
  show ?case
  proof (cases "kq = (k, qd)")
    case True
    with Cons.prems(3) have "k \<notin> fst ` set qs" by auto
    from query_loop_other_keys[OF l this] have "m k = a1 k" .
    moreover from query_loop_sent[OF l] obtain ys where "sent w' = sent w1 @ ys" by blast
    ultimately show ?thesis using s True by blast
  next
    case False
    with Cons.prems have "(k, qd) \<in> set qs" and "distinct (map fst qs)" by auto
    from Cons.IH[OF l this] show ?thesis .
  qed
qed

lemma query_loop_append:
  "query_loop self py srv limit (xs @ ys) acc w =
     (case query_loop self py srv limit xs acc w of
        (Inl e, w') \<Rightarrow> (Inl e, w')
      | (Inr acc', w') \<Rightarrow> query_loop self py srv limit ys acc' w')"
proof (induction xs arbitrary: acc w)
  case Nil
  then show ?case by simp
next
  case (Cons kq xs)
  then show ?case
    by (cases "query_step self py srv limit kq acc w") (auto split: sum.splits)
qed

text \<open>
  C6. The \<^verbatim>\<open>rows\<close> parameter of the request for a query is the \<^verbatim>\<open>limit\<close> entry of that
  query when it has one and the \<^verbatim>\<open>limit\<close> argument of the call otherwise, whose default is
  10000; and in the dictionary that \<^verbatim>\<open>query_entities\<close> returns, the result list of a key
  has as many entities as the reply to that request has records.
\<close>

theorem row_cap:
  "(select_request self qd limit = Inr rq \<longrightarrow>
      map_of (params rq) ''rows'' = Some (case map_of qd ''limit'' of Some l \<Rightarrow> l | None \<Rightarrow> limit)) \<and>
   limit_default = JInt 10000 \<and>
   (query_entities self py srv queries limit w = (Inr m, w') \<and> distinct (map fst queries) \<and>
    (k, qd) \<in> set queries \<longrightarrow>
      (\<exists>h ys rq' r body docs es.
         select_request self qd limit = Inr rq' \<and> sent w' = h @ rq' # ys \<and> srv h rq' = Inr r \<and>
         r_json r = Some body \<and> response_docs body = Inr docs \<and>
         m k = Some \<lparr>result = es\<rparr> \<and> length es = length docs))"
proof (intro conjI impI)
  assume "select_request self qd limit = Inr rq"
  from select_request_Inr[OF this]
  show "map_of (params rq) ''rows'' = Some (case map_of qd ''limit'' of Some l \<Rightarrow> l | None \<Rightarrow> limit)"
    by (auto simp: select_params_def)
next
  show "limit_default = JInt 10000" by (simp add: limit_default_def)
next
  assume a: "query_entities self py srv queries limit w = (Inr m, w') \<and>
             distinct (map fst queries) \<and> (k, qd) \<in> set queries"
  then have "query_loop self py srv limit queries Map.empty w = (Inr m, w')"
    by (simp add: query_entities_def)
  from query_loop_member[OF this] a obtain acc0 w0 acc1 w1 ys where
    s: "query_step self py srv limit (k, qd) acc0 w0 = (Inr acc1, w1)"
    and mk: "m k = acc1 k" and ys: "sent w' = sent w1 @ ys" by blast
  from query_step_Inr[OF s] obtain q rq' r body docs es where
    "select_request self qd limit = Inr rq'" "srv (sent w0) rq' = Inr r" "r_json r = Some body"
    "response_docs body = Inr docs"
    "list_all2 (\<lambda>sr e. query_result self py q sr = Inr e) docs es"
    "acc1 = acc0(k \<mapsto> \<lparr>result = es\<rparr>)" "sent w1 = sent w0 @ [rq']"
    by auto
  with mk ys have "select_request self qd limit = Inr rq' \<and> sent w' = sent w0 @ rq' # ys \<and>
         srv (sent w0) rq' = Inr r \<and> r_json r = Some body \<and> response_docs body = Inr docs \<and>
         m k = Some \<lparr>result = es\<rparr> \<and> length es = length docs"
    by (auto dest: list_all2_lengthD)
  then show "\<exists>h ys rq' r body docs es.
         select_request self qd limit = Inr rq' \<and> sent w' = h @ rq' # ys \<and> srv h rq' = Inr r \<and>
         r_json r = Some body \<and> response_docs body = Inr docs \<and>
         m k = Some \<lparr>result = es\<rparr> \<and> length es = length docs"
    by blast
qed

lemma sample_result_Paris:
  "query_result Entity_Linker_class python_sample ''paris''
     (JObj [(''id'', JStr ''E1''), (''score'', JFloat 3),
            (''label_ss'', JList [JStr ''Paris'', JStr ''City of Paris''])])
   = Inr [(''id'', JStr ''E1''), (''name'', JStr ''Paris''), (''score'', JFloat 3),
          (''match'', JBool True), (''type'', JList [])]"
  by (simp add: query_result_def choose_label_def label_step_def and_then_def getitem_def
        scan_match_def scan_values_def field_values_def choose_types_def
        Entity_Linker_class_def python_sample_def ascii_lower_def py_str_def)

lemma sample_result_Parris:
  "query_result Entity_Linker_class python_sample ''paris''
     (JObj [(''id'', JStr ''E2''), (''score'', JFloat 1), (''label_ss'', JList [JStr ''Parris''])])
   = Inr [(''id'', JStr ''E2''), (''name'', JStr ''Parris''), (''score'', JFloat 1),
          (''match'', JBool False), (''type'', JList [])]"
  by (simp add: query_result_def choose_label_def label_step_def and_then_def getitem_def
        scan_match_def scan_values_def field_values_def choose_types_def
        Entity_Linker_class_def python_sample_def ascii_lower_def py_str_def)

theorem row_cap_witness:
  "select_request Entity_Linker_class [(''query'', JStr ''paris''), (''limit'', JInt 3)] limit_default
     = Inr (Get (solr Entity_Linker_class @ solr_core Entity_Linker_class @ ''/select'')
                (select_params Entity_Linker_class ''paris'' (JInt 3))
                [(''content-type'', ''application/json'')])
   \<and> map_of (select_params Entity_Linker_class ''paris'' (JInt 3)) ''rows'' = Some (JInt 3)
   \<and> select_request Entity_Linker_class [(''query'', JStr ''rome'')] limit_default
     = Inr (Get (solr Entity_Linker_class @ solr_core Entity_Linker_class @ ''/select'')
                (select_params Entity_Linker_class ''rome'' (JInt 10000))
                [(''content-type'', ''application/json'')])
   \<and> map_of (select_params Entity_Linker_class ''rome'' (JInt 10000)) ''rows'' = Some (JInt 10000)
   \<and> fst (query_entities Entity_Linker_class python_sample
             (scripted [reply [JObj [(''id'', JStr ''E1''), (''score'', JFloat 3),
                                     (''label_ss'', JList [JStr ''Paris'', JStr ''City of Paris''])],
                               JObj [(''id'', JStr ''E2''), (''score'', JFloat 1),
                                     (''label_ss'', JList [JStr ''Parris''])]]])
             [(JStr ''q0'', [(''query'', JStr ''paris''), (''limit'', JInt 3)])]
             limit_default world0)
     = Inr [JStr ''q0'' \<mapsto>
            \<lparr>result = [[(''id'', JStr ''E1''), (''name'', JStr ''Paris''), (''score'', JFloat 3),
                         (''match'', JBool True), (''type'', JList [])],
                        [(''id'', JStr ''E2''), (''name'', JStr ''Parris''), (''score'', JFloat 1),
                         (''match'', JBool False), (''type'', JList [])]]\<rparr>]
   \<and> (\<exists>docs es.
        [JStr ''q0'' \<mapsto>
            \<lparr>result = [[(''id'', JStr ''E1''), (''name'', JStr ''Paris''), (''score'', JFloat 3),
                         (''match'', JBool True), (''type'', JList [])],
                        [(''id'', JStr ''E2''), (''name'', JStr ''Parris''), (''score'', JFloat 1),
                         (''match'', JBool False), (''type'', JList [])]]\<rparr>] (JStr ''q0'')
          = Some \<lparr>result = es\<rparr> \<and> length es = length (docs :: json list))"
proof -
  let ?srv = "scripted [reply [JObj [(''id'', JStr ''E1''), (''score'', JFloat 3),
                                     (''label_ss'', JList [JStr ''Paris'', JStr ''City of Paris''])],
                               JObj [(''id'', JStr ''E2''), (''score'', JFloat 1),
                                     (''label_ss'', JList [JStr ''Parris''])]]]"
  let ?qd = "[(''query'', JStr ''paris''), (''limit'', JInt 3)]"
  let ?qs = "[(JStr ''q0'', ?qd)]"
  let ?m = "[JStr ''q0'' \<mapsto>
            \<lparr>result = [[(''id'', JStr ''E1''), (''name'', JStr ''Paris''), (''score'', JFloat 3),
                         (''match'', JBool True), (''type'', JList [])],
                        [(''id'', JStr ''E2''), (''name'', JStr ''Parris''), (''score'', JFloat 1),
                         (''match'', JBool False), (''type'', JList [])]]\<rparr>]"
  have s3: "select_request Entity_Linker_class ?qd limit_default
     = Inr (Get (solr Entity_Linker_class @ solr_core Entity_Linker_class @ ''/select'')
                (select_params Entity_Linker_class ''paris'' (JInt 3))
                [(''content-type'', ''application/json'')])"
    by (simp add: select_request_def and_then_def getitem_def)
  from row_cap[THEN conjunct1, THEN mp, OF s3]
  have r3: "map_of (select_params Entity_Linker_class ''paris'' (JInt 3)) ''rows'' = Some (JInt 3)"
    by simp
  have d: "limit_default = JInt 10000"
    by (rule row_cap[THEN conjunct2, THEN conjunct1])
  have sd: "select_request Entity_Linker_class [(''query'', JStr ''rome'')] limit_default
     = Inr (Get (solr Entity_Linker_class @ solr_core Entity_Linker_class @ ''/select'')
                (select_params Entity_Linker_class ''rome'' (JInt 10000))
                [(''content-type'', ''application/json'')])"
    by (simp add: select_request_def and_then_def getitem_def d)
  from row_cap[THEN conjunct1, THEN mp, OF sd]
  have rd: "map_of (select_params Entity_Linker_class ''rome'' (JInt 10000)) ''rows'' = Some (JInt 10000)"
    by (simp add: d)
  have run: "fst (query_entities Entity_Linker_class python_sample ?srv ?qs limit_default world0)
             = Inr ?m"
    by (simp add: query_entities_def query_step_def select_request_def requests_send_def
          scripted_def reply_def response_docs_def and_then_def getitem_def query_text_def
          print_verbose_def verbose_class world0_def sample_result_Paris sample_result_Parris)
  then have full: "query_entities Entity_Linker_class python_sample ?srv ?qs limit_default world0
             = (Inr ?m, snd (query_entities Entity_Linker_class python_sample ?srv ?qs
                               limit_default world0))"
    by (metis prod.collapse)
  have "query_entities Entity_Linker_class python_sample ?srv ?qs limit_default world0
             = (Inr ?m, snd (query_entities Entity_Linker_class python_sample ?srv ?qs
                               limit_default world0))
        \<and> distinct (map fst ?qs) \<and> (JStr ''q0'', ?qd) \<in> set ?qs"
    using full by simp
  from row_cap[THEN conjunct2, THEN conjunct2, THEN mp, OF this]
  have "\<exists>docs es. ?m (JStr ''q0'') = Some \<lparr>result = es\<rparr> \<and> length es = length (docs :: json list)"
    by blast
  with s3 r3 sd rd run show ?thesis by blast
qed

subsection \<open>A failing query\<close>

lemma stderr_query_step:
  assumes "query_step self py srv limit kq acc w = (res, w')"
  shows "stderr w' = stderr w \<and> dm_default w' = dm_default w"
  using assms unfolding query_step_def requests_send_def
  by (auto simp: Let_def stderr_print_verbose dm_default_print_verbose
           split: sum.splits option.splits)

text \<open>
  C7. When the request of a query fails in transport, or its reply does not decode,
  \<^verbatim>\<open>entities\<close> raises that error: the outcome is the error and no dictionary, the request
  is sent once and nothing is sent after it, and nothing is written to the error stream.
  The queries before it have been answered; those after it are not asked.
\<close>

theorem query_failure_surfaces:
  assumes "query_loop self py srv limit pre Map.empty w = (Inr m1, w1)"
    and "select_request self qd limit = Inr rq"
    and "srv (sent w1) rq = Inl e \<or> (\<exists>r. srv (sent w1) rq = Inr r \<and> r_json r = None \<and> e = JSONDecodeError)"
  shows "\<exists>w'. entities self py srv (Some (pre @ (k, qd) # post)) text limit taggers fs w = (Inl e, w')
              \<and> sent w' = sent w1 @ [rq] \<and> stderr w' = stderr w1"
proof -
  obtain kq kqs where ne: "pre @ (k, qd) # post = kq # kqs"
    by (cases pre) auto
  have ent: "entities self py srv (Some (pre @ (k, qd) # post)) text limit taggers fs w
        = query_loop self py srv limit (pre @ (k, qd) # post) Map.empty w"
    unfolding ne by (simp add: entities_def query_entities_def)
  have loop: "query_loop self py srv limit (pre @ (k, qd) # post) Map.empty w
        = (case query_step self py srv limit (k, qd) m1 w1 of
             (Inl e, w') \<Rightarrow> (Inl e, w')
           | (Inr acc', w') \<Rightarrow> query_loop self py srv limit post acc' w')"
    using assms(1) by (simp add: query_loop_append)
  from assms(3) obtain w' where step: "query_step self py srv limit (k, qd) m1 w1 = (Inl e, w')"
    and s: "sent w' = sent w1 @ [rq]"
  proof
    assume "srv (sent w1) rq = Inl e"
    from query_step_transport[of self "(k, qd)" limit rq srv w1 e py m1] assms(2) this
    have "query_step self py srv limit (k, qd) m1 w1 = (Inl e, w1\<lparr>sent := sent w1 @ [rq]\<rparr>)"
      by simp
    then show ?thesis using that by simp
  next
    assume "\<exists>r. srv (sent w1) rq = Inr r \<and> r_json r = None \<and> e = JSONDecodeError"
    then obtain r where r: "srv (sent w1) rq = Inr r" "r_json r = None" and e: "e = JSONDecodeError"
      by blast
    from query_step_decode[of self "(k, qd)" limit rq srv w1 r py m1] assms(2) r
    have "query_step self py srv limit (k, qd) m1 w1 =
           (Inl JSONDecodeError,
            print_verbose self (''Enity linker Solr result: '' @ r_text r)
              (w1\<lparr>sent := sent w1 @ [rq]\<rparr>))"
      by simp
    then show ?thesis using that e by (simp add: sent_print_verbose)
  qed
  from stderr_query_step[OF step] have "stderr w' = stderr w1" by simp
  with ent loop step s show ?thesis by simp
qed

theorem query_failure_surfaces_witness:
  "query_loop Entity_Linker_class python_sample (scripted [Inl (RequestException ''timeout'')])
     limit_default [] Map.empty world0 = (Inr Map.empty, world0)
   \<and> select_request Entity_Linker_class [(''query'', JStr ''paris'')] limit_default
     = Inr (Get (solr Entity_Linker_class @ solr_core Entity_Linker_class @ ''/select'')
                (select_params Entity_Linker_class ''paris'' limit_default)
                [(''content-type'', ''application/json'')])
   \<and> scripted [Inl (RequestException ''timeout'')] (sent world0)
        (Get (solr Entity_Linker_class @ solr_core Entity_Linker_class @ ''/select'')
             (select_params Entity_Linker_class ''paris'' limit_default)
             [(''content-type'', ''application/json'')])
     = Inl (RequestException ''timeout'')
   \<and> (\<exists>w'. entities Entity_Linker_class python_sample (scripted [Inl (RequestException ''timeout'')])
               (Some [(JStr ''q0'', [(''query'', JStr ''paris'')]),
                      (JStr ''q1'', [(''query'', JStr ''rome'')])])
               None limit_default taggers_default [] world0
             = (Inl (RequestException ''timeout''), w')
           \<and> sent w' = sent world0
                @ [Get (solr Entity_Linker_class @ solr_core Entity_Linker_class @ ''/select'')
                       (select_params Entity_Linker_class ''paris'' limit_default)
                       [(''content-type'', ''application/json'')]]
           \<and> stderr w' = stderr world0)"
proof -
  let ?srv = "scripted [Inl (RequestException ''timeout'')]"
  let ?rq = "Get (solr Entity_Linker_class @ solr_core Entity_Linker_class @ ''/select'')
                (select_params Entity_Linker_class ''paris'' limit_default)
                [(''content-type'', ''application/json'')]"
  have a: "query_loop Entity_Linker_class python_sample ?srv limit_default [] Map.empty world0
           = (Inr Map.empty, world0)"
    by simp
  have b: "select_request Entity_Linker_class [(''query'', JStr ''paris'')] limit_default = Inr ?rq"
    by (simp add: select_request_def and_then_def getitem_def)
  have c: "?srv (sent world0) ?rq = Inl (RequestException ''timeout'')"
    by (simp add: scripted_def world0_def)
  then have c': "?srv (sent world0) ?rq = Inl (RequestException ''timeout'')
       \<or> (\<exists>r. ?srv (sent world0) ?rq = Inr r \<and> r_json r = None
              \<and> RequestException ''timeout'' = JSONDecodeError)"
    by (rule disjI1)
  from query_failure_surfaces[OF a b c', of "JStr ''q0''"
         "[(JStr ''q1'', [(''query'', JStr ''rome'')])]" None taggers_default "[]"]
  have "\<exists>w'. entities Entity_Linker_class python_sample ?srv
               (Some [(JStr ''q0'', [(''query'', JStr ''paris'')]),
                      (JStr ''q1'', [(''query'', JStr ''rome'')])])
               None limit_default taggers_default [] world0
             = (Inl (RequestException ''timeout''), w')
           \<and> sent w' = sent world0 @ [?rq] \<and> stderr w' = stderr world0"
    by simp
  with a b c show ?thesis by blast
qed

subsection \<open>Records without id or score\<close>











subsection \<open>The dictionary that the taggers fill\<close>

lemma store_writes_Nil: "store_writes [] m = m"
  by (simp add: store_writes_def)

lemma store_writes_Cons:
  "store_writes (ke # ws) m = store_writes ws (m(fst ke \<mapsto> \<lparr>result = [snd ke]\<rparr>))"
  by (simp add: store_writes_def)

lemma store_writes_append: "store_writes (xs @ ys) m = store_writes ys (store_writes xs m)"
  by (simp add: store_writes_def)

lemma store_writes_lookup:
  "store_writes ws m k =
     (case map_of (rev ws) k of None \<Rightarrow> m k | Some e \<Rightarrow> Some \<lparr>result = [e]\<rparr>)"
proof (induction ws arbitrary: m)
  case Nil
  then show ?case by (simp add: store_writes_Nil)
next
  case (Cons ke ws)
  obtain k' e' where ke: "ke = (k', e')" by (cases ke)
  show ?case
    unfolding store_writes_Cons Cons.IH
    by (cases "map_of (rev ws) k") (auto simp: ke map_add_def)
qed

lemma store_writes_keeps: "m k \<noteq> None \<Longrightarrow> store_writes ws m k \<noteq> None"
  by (simp add: store_writes_lookup split: option.splits)

lemma writes_of_tag_result:
  "(k, e) \<in> set (writes_of fs docs) \<Longrightarrow> \<exists>sr \<in> set docs. tag_result fs sr = Inr (k, e)"
  by (induction docs) (auto split: sum.splits)

lemma tag_docs_store: "snd (tag_docs fs docs m) = store_writes (writes_of fs docs) m"
proof (induction docs arbitrary: m)
  case Nil
  then show ?case by (simp add: store_writes_Nil)
next
  case (Cons sr srs)
  show ?case
  proof (cases "tag_result fs sr")
    case (Inl e)
    then show ?thesis by (simp add: store_writes_Nil)
  next
    case (Inr ke)
    obtain k e where ke: "ke = (k, e)" by (cases ke)
    have "snd (tag_docs fs (sr # srs) m) = snd (tag_docs fs srs (m(k \<mapsto> \<lparr>result = [e]\<rparr>)))"
      by (simp add: Inr ke)
    also have "\<dots> = store_writes (writes_of fs srs) (m(k \<mapsto> \<lparr>result = [e]\<rparr>))"
      by (rule Cons.IH)
    also have "\<dots> = store_writes (writes_of fs (sr # srs)) m"
      by (simp add: Inr ke store_writes_Cons)
    finally show ?thesis .
  qed
qed

lemma dictionary_matcher_on_no_text:
  "dictionary_matcher_on self py srv None limit tagger fs m w = (Inl AttributeError, m, w)"
  by (simp add: dictionary_matcher_on_def)

lemma dictionary_matcher_on_transport:
  assumes "srv (sent w) (tagger_request self py t limit tagger fs) = Inl e"
  shows "dictionary_matcher_on self py srv (Some t) limit tagger fs m w =
           (Inl e, m, w\<lparr>sent := sent w @ [tagger_request self py t limit tagger fs]\<rparr>)"
  using assms by (simp add: dictionary_matcher_on_def requests_send_def)

lemma dictionary_matcher_on_decode:
  assumes "srv (sent w) (tagger_request self py t limit tagger fs) = Inr r" and "r_json r = None"
  shows "dictionary_matcher_on self py srv (Some t) limit tagger fs m w =
           (Inl JSONDecodeError, m,
            print_verbose self
              (''Entity linking / Solr Text Tagger result for tagger '' @ tagger @ '': '' @ r_text r)
              (w\<lparr>sent := sent w @ [tagger_request self py t limit tagger fs]\<rparr>))"
  using assms by (simp add: dictionary_matcher_on_def requests_send_def Let_def)

lemma dictionary_matcher_on_reply:
  assumes "srv (sent w) (tagger_request self py t limit tagger fs) = Inr r"
    and "r_json r = Some matches" and "response_docs matches = Inr docs"
  shows "dictionary_matcher_on self py srv (Some t) limit tagger fs m w =
           (fst (tag_docs fs docs m), snd (tag_docs fs docs m),
            print_verbose self
              (''Entity linking / Solr Text Tagger result for tagger '' @ tagger @ '': '' @ r_text r)
              (w\<lparr>sent := sent w @ [tagger_request self py t limit tagger fs]\<rparr>))"
  using assms
  by (simp add: dictionary_matcher_on_def requests_send_def Let_def split: prod.splits)

lemma dictionary_matcher_on_store:
  assumes "dictionary_matcher_on self py srv text limit tagger fs m w = (res, m', w')"
  shows "m' = store_writes (tagger_writes self py srv text limit tagger fs w) m"
proof (cases "text")
  case None
  with assms show ?thesis
    by (simp add: dictionary_matcher_on_no_text tagger_writes_def tagger_docs_def store_writes_Nil)
next
  case (Some t)
  let ?rq = "tagger_request self py t limit tagger fs"
  show ?thesis
  proof (cases "srv (sent w) ?rq")
    case (Inl e)
    with assms Some show ?thesis
      by (simp add: dictionary_matcher_on_transport tagger_writes_def tagger_docs_def
            store_writes_Nil)
  next
    case (Inr r)
    show ?thesis
    proof (cases "r_json r")
      case None
      with assms Some Inr show ?thesis
        by (simp add: dictionary_matcher_on_decode tagger_writes_def tagger_docs_def
              store_writes_Nil)
    next
      case body: (Some matches)
      show ?thesis
      proof (cases "response_docs matches")
        case (Inl e)
        with assms Some Inr body show ?thesis
          by (simp add: dictionary_matcher_on_def requests_send_def Let_def tagger_writes_def
                tagger_docs_def store_writes_Nil)
      next
        case docs: (Inr docs)
        from assms Some
          dictionary_matcher_on_reply[where srv = srv and w = w and m = m, OF Inr body docs]
        have "m' = snd (tag_docs fs docs m)" by simp
        with Some Inr body docs show ?thesis
          by (simp add: tag_docs_store tagger_writes_def tagger_docs_def)
      qed
    qed
  qed
qed

lemma dictionary_matcher_on_world:
  assumes "dictionary_matcher_on self py srv text limit tagger fs m w = (res, m', w')"
  shows "stderr w' = stderr w \<and> dm_default w' = dm_default w \<and> (\<exists>xs. sent w' = sent w @ xs)"
  using assms unfolding dictionary_matcher_on_def requests_send_def
  by (auto simp: Let_def sent_print_verbose stderr_print_verbose dm_default_print_verbose
           split: option.splits sum.splits prod.splits)

lemma dictionary_matcher_Some:
  "dictionary_matcher self py srv text limit tagger (Some m) fs w =
     dictionary_matcher_on self py srv text limit tagger fs m w"
  by (simp add: dictionary_matcher_def)

lemma tagger_loop_Cons_store:
  "\<exists>w1. tagger_loop self py srv text limit fs (tagger # taggers) m w =
          tagger_loop self py srv text limit fs taggers
            (store_writes (tagger_writes self py srv text limit tagger fs w) m) w1 \<and>
        tagger_loop self py srv text limit fs [tagger] m w =
          (store_writes (tagger_writes self py srv text limit tagger fs w) m, w1)"
proof -
  obtain res m' w' where d: "dictionary_matcher_on self py srv text limit tagger fs m w = (res, m', w')"
    by (cases "dictionary_matcher_on self py srv text limit tagger fs m w")
  from dictionary_matcher_on_store[OF d]
  have m': "m' = store_writes (tagger_writes self py srv text limit tagger fs w) m" .
  show ?thesis
    by (cases res) (simp_all add: dictionary_matcher_Some d m')
qed

lemma tagger_loop_store:
  "fst (tagger_loop self py srv text limit fs taggers m w) =
     store_writes (all_writes self py srv text limit fs taggers m w) m"
proof (induction taggers arbitrary: m w)
  case Nil
  then show ?case by (simp add: store_writes_Nil)
next
  case (Cons tagger taggers)
  from tagger_loop_Cons_store[of self py srv "text" limit fs tagger taggers m w]
  obtain w1 where
    step: "tagger_loop self py srv text limit fs (tagger # taggers) m w =
          tagger_loop self py srv text limit fs taggers
            (store_writes (tagger_writes self py srv text limit tagger fs w) m) w1"
    and one: "tagger_loop self py srv text limit fs [tagger] m w =
          (store_writes (tagger_writes self py srv text limit tagger fs w) m, w1)"
    by blast
  show ?case
    unfolding step Cons.IH
    by (simp only: all_writes.simps one prod.case store_writes_append)
qed

lemma tagger_loop_append:
  "tagger_loop self py srv text limit fs (xs @ ys) m w =
     (case tagger_loop self py srv text limit fs xs m w of
        (m', w') \<Rightarrow> tagger_loop self py srv text limit fs ys m' w')"
proof (induction xs arbitrary: m w)
  case Nil
  then show ?case by simp
next
  case (Cons tagger xs)
  obtain res m' w' where d: "dictionary_matcher self py srv text limit tagger (Some m) fs w = (res, m', w')"
    by (cases "dictionary_matcher self py srv text limit tagger (Some m) fs w")
  show ?case
    by (cases res) (simp_all add: d Cons.IH)
qed

lemma entities_no_queries:
  assumes "queries = None \<or> queries = Some []"
  shows "entities self py srv queries text limit taggers fs w =
           (Inr (fst (tagger_loop self py srv text limit fs taggers Map.empty w)),
            snd (tagger_loop self py srv text limit fs taggers Map.empty w))"
  using assms by (auto simp: entities_def split: prod.splits)

subsection \<open>No queries and no text\<close>

lemma tagger_loop_no_text:
  "tagger_loop self py srv None limit fs taggers m w =
     (m, w\<lparr>stderr := stderr w @ map (\<lambda>tagger. tagger_message py tagger AttributeError) taggers\<rparr>)"
proof (induction taggers arbitrary: w)
  case Nil
  then show ?case by simp
next
  case (Cons tagger taggers)
  show ?case
    by (simp add: dictionary_matcher_Some dictionary_matcher_on_no_text Cons.IH)
qed

text \<open>
  C8. With \<^verbatim>\<open>queries\<close> absent or empty and \<^verbatim>\<open>text\<close> absent, \<^verbatim>\<open>entities\<close> returns the empty
  dictionary and does not raise; no request is sent. Every tagger of the list fails on
  \<^verbatim>\<open>text.encode\<close> before its request is made, which is caught and written to the error
  stream.
\<close>

theorem empty_input:
  assumes "queries = None \<or> queries = Some []"
  shows "entities self py srv queries None limit taggers fs w =
           (Inr Map.empty,
            w\<lparr>stderr := stderr w @ map (\<lambda>tagger. tagger_message py tagger AttributeError) taggers\<rparr>)
         \<and> sent (snd (entities self py srv queries None limit taggers fs w)) = sent w"
  using assms by (auto simp: entities_def tagger_loop_no_text)

theorem empty_input_witness:
  "entities Entity_Linker_class python_sample (scripted []) None None limit_default
     taggers_default [] world0
   = (Inr Map.empty,
      world0\<lparr>stderr := stderr world0
                 @ map (\<lambda>tagger. tagger_message python_sample tagger AttributeError)
                       taggers_default\<rparr>)
   \<and> sent (snd (entities Entity_Linker_class python_sample (scripted []) None None limit_default
                  taggers_default [] world0)) = []
   \<and> entities Entity_Linker_class python_sample (scripted []) (Some []) None limit_default
       [] [] world0 = (Inr Map.empty, world0)"
proof -
  have n: "(None :: (json \<times> (string \<times> json) list) list option) = None \<or> None = Some []"
    by simp
  have e: "Some ([] :: (json \<times> (string \<times> json) list) list) = None
           \<or> Some ([] :: (json \<times> (string \<times> json) list) list) = Some []"
    by simp
  from empty_input[OF n, of Entity_Linker_class python_sample "scripted []" limit_default
         taggers_default "[]" world0]
    empty_input[OF e, of Entity_Linker_class python_sample "scripted []" limit_default
         "[]" "[]" world0]
  show ?thesis by (simp add: world0_def)
qed

subsection \<open>The match flag of a tagged record\<close>

lemma dictionary_matcher_store:
  assumes "dictionary_matcher self py srv text limit tagger ne fs w = (res, m', w')"
  shows "m' = store_writes (tagger_writes self py srv text limit tagger fs w)
                (case ne of Some m \<Rightarrow> m | None \<Rightarrow> dm_default w)
         \<and> (ne = None \<longrightarrow> dm_default w' = m')"
proof (cases ne)
  case None
  obtain r0 m0 w0 where d: "dictionary_matcher_on self py srv text limit tagger fs (dm_default w) w
                            = (r0, m0, w0)"
    by (cases "dictionary_matcher_on self py srv text limit tagger fs (dm_default w) w")
  with assms None have "m' = m0" and "w' = w0\<lparr>dm_default := m0\<rparr>"
    by (auto simp: dictionary_matcher_def)
  with dictionary_matcher_on_store[OF d] None show ?thesis by simp
next
  case (Some m)
  with assms dictionary_matcher_on_store[of self py srv "text" limit tagger fs m w res m' w']
  show ?thesis by (simp add: dictionary_matcher_Some)
qed

lemma tag_result_match:
  assumes "tag_result fs (JObj d) = Inr (k, e)"
  shows "map_of e ''match'' =
           (if ''match'' \<in> set fs \<and> map_of d ''match'' \<noteq> None then map_of d ''match''
            else Some (JBool True))"
proof -
  from tag_result_Inr[OF assms] obtain label i where
    e: "e = add_fields d fs [(''id'', i), (''name'', label), (''match'', JBool True),
                             (''type'', choose_types d)]"
    by auto
  show ?thesis by (auto simp: e map_of_add_fields)
qed

text \<open>
  C3 (amended). The entity that \<^verbatim>\<open>dictionary_matcher\<close> builds for a record carries
  \<^verbatim>\<open>match = True\<close>, unless \<^verbatim>\<open>match\<close> is among the requested additional fields and the record
  has a field of that name, whose value then replaces it. When \<^verbatim>\<open>match\<close> is not requested,
  every entry that a call writes or changes holds one entity with \<^verbatim>\<open>match = True\<close>, for
  every text, tagger and reply.
\<close>

theorem dictionary_match_flag:
  "(tag_result fs (JObj d) = Inr (k, e) \<longrightarrow>
      map_of e ''match'' =
        (if ''match'' \<in> set fs \<and> map_of d ''match'' \<noteq> None then map_of d ''match''
         else Some (JBool True))) \<and>
   (''match'' \<notin> set fs \<and>
    dictionary_matcher self py srv text limit tagger ne fs w = (res, m', w') \<and>
    m' k' = Some en \<and> (case ne of Some m \<Rightarrow> m | None \<Rightarrow> dm_default w) k' \<noteq> Some en \<longrightarrow>
      (\<exists>e'. en = \<lparr>result = [e']\<rparr> \<and> map_of e' ''match'' = Some (JBool True)))"
proof (intro conjI impI)
  assume "tag_result fs (JObj d) = Inr (k, e)"
  then show "map_of e ''match'' =
        (if ''match'' \<in> set fs \<and> map_of d ''match'' \<noteq> None then map_of d ''match''
         else Some (JBool True))"
    by (rule tag_result_match)
next
  let ?m0 = "case ne of Some m \<Rightarrow> m | None \<Rightarrow> dm_default w"
  let ?ws = "tagger_writes self py srv text limit tagger fs w"
  assume a: "''match'' \<notin> set fs \<and>
    dictionary_matcher self py srv text limit tagger ne fs w = (res, m', w') \<and>
    m' k' = Some en \<and> ?m0 k' \<noteq> Some en"
  then have d: "dictionary_matcher self py srv text limit tagger ne fs w = (res, m', w')"
    and nf: "''match'' \<notin> set fs" and en: "m' k' = Some en" and ch: "?m0 k' \<noteq> Some en"
    by simp_all
  from dictionary_matcher_store[OF d] have "m' k' = store_writes ?ws ?m0 k'" by simp
  with en ch obtain e' where l: "map_of (rev ?ws) k' = Some e'" and r: "en = \<lparr>result = [e']\<rparr>"
    by (auto simp: store_writes_lookup split: option.splits)
  from l have "(k', e') \<in> set ?ws" by (auto dest: map_of_SomeD)
  then obtain sr where "tag_result fs sr = Inr (k', e')"
    unfolding tagger_writes_def by (auto dest: writes_of_tag_result)
  moreover from tag_result_Inr[OF this] obtain d' where "sr = JObj d'" by blast
  ultimately have "map_of e' ''match'' = Some (JBool True)"
    using tag_result_match[of fs d' k' e'] nf by simp
  with r show "\<exists>e'. en = \<lparr>result = [e']\<rparr> \<and> map_of e' ''match'' = Some (JBool True)"
    by blast
qed

lemma sample_tag_Paris:
  "tag_result [] (JObj [(''id'', JStr ''E1''), (''preferred_label_s'', JStr ''Paris'')])
   = Inr (JStr ''E1'', [(''id'', JStr ''E1''), (''name'', JStr ''Paris''),
                        (''match'', JBool True), (''type'', JList [])])"
  by (simp add: tag_result_def choose_label_def label_step_def and_then_def getitem_def
        add_fields_def choose_types_def)

theorem dictionary_match_flag_witness:
  "tag_result [] (JObj [(''id'', JStr ''E1''), (''preferred_label_s'', JStr ''Paris'')])
   = Inr (JStr ''E1'', [(''id'', JStr ''E1''), (''name'', JStr ''Paris''),
                        (''match'', JBool True), (''type'', JList [])])
   \<and> map_of [(''id'', JStr ''E1''), (''name'', JStr ''Paris''),
             (''match'', JBool True), (''type'', JList [])] ''match'' = Some (JBool True)
   \<and> ''match'' \<notin> set ([] :: string list)
   \<and> fst (snd (dictionary_matcher Entity_Linker_class python_sample
                  (scripted [reply [JObj [(''id'', JStr ''E1''),
                                          (''preferred_label_s'', JStr ''Paris'')]]])
                  (Some ''I love Paris'') limit_default tagger_default (Some Map.empty) []
                  world0)) (JStr ''E1'')
     = Some \<lparr>result = [[(''id'', JStr ''E1''), (''name'', JStr ''Paris''),
                         (''match'', JBool True), (''type'', JList [])]]\<rparr>
   \<and> (\<exists>e'. \<lparr>result = [[(''id'', JStr ''E1''), (''name'', JStr ''Paris''),
                         (''match'', JBool True), (''type'', JList [])]]\<rparr> = \<lparr>result = [e']\<rparr>
           \<and> map_of e' ''match'' = Some (JBool True))"
proof -
  let ?d = "[(''id'', JStr ''E1''), (''preferred_label_s'', JStr ''Paris'')]"
  let ?e = "[(''id'', JStr ''E1''), (''name'', JStr ''Paris''),
             (''match'', JBool True), (''type'', JList [])]"
  let ?call = "dictionary_matcher Entity_Linker_class python_sample (scripted [reply [JObj ?d]])
                 (Some ''I love Paris'') limit_default tagger_default (Some Map.empty) [] world0"
  note t = sample_tag_Paris
  from dictionary_match_flag[THEN conjunct1, THEN mp, OF t]
  have m: "map_of ?e ''match'' = Some (JBool True)" by simp
  have run: "fst (snd ?call) (JStr ''E1'') = Some \<lparr>result = [?e]\<rparr>"
    by (simp add: dictionary_matcher_def dictionary_matcher_on_def requests_send_def
          scripted_def reply_def response_docs_def and_then_def getitem_def print_verbose_def
          verbose_class world0_def t)
  have h: "''match'' \<notin> set ([] :: string list) \<and>
           ?call = (fst ?call, fst (snd ?call), snd (snd ?call)) \<and>
           fst (snd ?call) (JStr ''E1'') = Some \<lparr>result = [?e]\<rparr> \<and>
           (case Some Map.empty of Some m \<Rightarrow> m | None \<Rightarrow> dm_default world0) (JStr ''E1'')
             \<noteq> Some \<lparr>result = [?e]\<rparr>"
    using run by simp
  from dictionary_match_flag[where fs = "[]" and self = Entity_Linker_class and py = python_sample
         and srv = "scripted [reply [JObj ?d]]" and ?text = "Some ''I love Paris''"
         and limit = limit_default and tagger = tagger_default and ne = "Some Map.empty"
         and w = world0 and k' = "JStr ''E1''" and en = "\<lparr>result = [?e]\<rparr>"
         and res = "fst ?call" and m' = "fst (snd ?call)" and w' = "snd (snd ?call)",
         THEN conjunct2, THEN mp, OF h]
  have ex: "\<exists>e'. \<lparr>result = [?e]\<rparr> = \<lparr>result = [e']\<rparr> \<and> map_of e' ''match'' = Some (JBool True)" .
  from t m run ex show ?thesis by simp
qed

text \<open>
  C3 as stated fails when \<^verbatim>\<open>match\<close> is requested as an additional field and the record
  has a field of that name: the record's value is stored.
\<close>

theorem dictionary_match_counterexample:
  "tag_result [''match''] (JObj [(''id'', JStr ''E1''), (''match'', JBool False)])
   = Inr (JStr ''E1'', [(''id'', JStr ''E1''), (''name'', JStr ''E1''),
                        (''match'', JBool False), (''type'', JList [])])
   \<and> fst (snd (dictionary_matcher Entity_Linker_class python_sample
                  (scripted [reply [JObj [(''id'', JStr ''E1''), (''match'', JBool False)]]])
                  (Some ''I love Paris'') limit_default tagger_default (Some Map.empty)
                  [''match''] world0)) (JStr ''E1'')
     = Some \<lparr>result = [[(''id'', JStr ''E1''), (''name'', JStr ''E1''),
                         (''match'', JBool False), (''type'', JList [])]]\<rparr>"
proof -
  have t: "tag_result [''match''] (JObj [(''id'', JStr ''E1''), (''match'', JBool False)])
   = Inr (JStr ''E1'', [(''id'', JStr ''E1''), (''name'', JStr ''E1''),
                        (''match'', JBool False), (''type'', JList [])])"
    by (simp add: tag_result_def choose_label_def label_step_def and_then_def getitem_def
          add_fields_def choose_types_def)
  have "fst (snd (dictionary_matcher Entity_Linker_class python_sample
                  (scripted [reply [JObj [(''id'', JStr ''E1''), (''match'', JBool False)]]])
                  (Some ''I love Paris'') limit_default tagger_default (Some Map.empty)
                  [''match''] world0)) (JStr ''E1'')
     = Some \<lparr>result = [[(''id'', JStr ''E1''), (''name'', JStr ''E1''),
                         (''match'', JBool False), (''type'', JList [])]]\<rparr>"
    by (simp add: dictionary_matcher_def dictionary_matcher_on_def requests_send_def
          scripted_def reply_def response_docs_def and_then_def getitem_def print_verbose_def
          verbose_class world0_def t)
  with t show ?thesis by simp
qed


subsection \<open>A failing tagger\<close>

lemma tagger_loop_keeps:
  "m k \<noteq> None \<Longrightarrow> fst (tagger_loop self py srv text limit fs taggers m w) k \<noteq> None"
  by (simp add: tagger_loop_store store_writes_keeps)

lemma tagger_loop_failed_step:
  assumes "dictionary_matcher_on self py srv text limit tagger fs m w = (Inl e, m, w1)"
  shows "tagger_loop self py srv text limit fs (tagger # taggers) m w =
           tagger_loop self py srv text limit fs taggers m
             (w1\<lparr>stderr := stderr w1 @ [tagger_message py tagger e]\<rparr>)"
  using assms by (simp add: dictionary_matcher_Some)

text \<open>
  C4. In \<^verbatim>\<open>entities\<close> without queries, when the request of one tagger of the list fails in
  transport, or its reply does not decode, the call does not raise: the error is written
  to the error stream in a line that holds the tagger name, the dictionary filled by the
  taggers before it is passed on unchanged, the taggers after it run on it, and every key
  it held is in the dictionary returned.
\<close>

theorem tagger_failure_skipped:
  assumes "queries = None \<or> queries = Some []"
    and "tagger_loop self py srv (Some t) limit fs ts1 Map.empty w = (m1, w1)"
    and "srv (sent w1) (tagger_request self py t limit tagger fs) = Inl e \<or>
         (\<exists>r. srv (sent w1) (tagger_request self py t limit tagger fs) = Inr r \<and>
              r_json r = None \<and> e = JSONDecodeError)"
  shows "\<exists>w2. sent w2 = sent w1 @ [tagger_request self py t limit tagger fs] \<and>
              stderr w2 = stderr w1 @
                [''Exception using Solr Text Tagger '' @ tagger @ '': '' @ str_exc py e @ [CHR 0x0A]] \<and>
              dm_default w2 = dm_default w1 \<and>
              entities self py srv queries (Some t) limit (ts1 @ tagger # ts2) fs w =
                (Inr (fst (tagger_loop self py srv (Some t) limit fs ts2 m1 w2)),
                 snd (tagger_loop self py srv (Some t) limit fs ts2 m1 w2)) \<and>
              (\<forall>k. m1 k \<noteq> None \<longrightarrow>
                   fst (tagger_loop self py srv (Some t) limit fs ts2 m1 w2) k \<noteq> None)"
proof -
  let ?rq = "tagger_request self py t limit tagger fs"
  from assms(3) obtain w1' where
    d: "dictionary_matcher_on self py srv (Some t) limit tagger fs m1 w1 = (Inl e, m1, w1')"
    and s: "sent w1' = sent w1 @ [?rq]" and se: "stderr w1' = stderr w1"
    and dd: "dm_default w1' = dm_default w1"
  proof
    assume "srv (sent w1) ?rq = Inl e"
    from dictionary_matcher_on_transport[where srv = srv and w = w1 and m = m1, OF this]
    show ?thesis using that by simp
  next
    assume "\<exists>r. srv (sent w1) ?rq = Inr r \<and> r_json r = None \<and> e = JSONDecodeError"
    then obtain r where r: "srv (sent w1) ?rq = Inr r" "r_json r = None"
      and e: "e = JSONDecodeError" by blast
    from dictionary_matcher_on_decode[where srv = srv and w = w1 and m = m1, OF r]
    show ?thesis using that e
      by (simp add: sent_print_verbose stderr_print_verbose dm_default_print_verbose)
  qed
  let ?w2 = "w1'\<lparr>stderr := stderr w1' @ [tagger_message py tagger e]\<rparr>"
  have "tagger_loop self py srv (Some t) limit fs (ts1 @ tagger # ts2) Map.empty w =
          tagger_loop self py srv (Some t) limit fs ts2 m1 ?w2"
    by (simp only: tagger_loop_append assms(2) prod.case tagger_loop_failed_step[OF d])
  with entities_no_queries[OF assms(1), of self py srv "Some t" limit "ts1 @ tagger # ts2" fs w]
  have "entities self py srv queries (Some t) limit (ts1 @ tagger # ts2) fs w =
                (Inr (fst (tagger_loop self py srv (Some t) limit fs ts2 m1 ?w2)),
                 snd (tagger_loop self py srv (Some t) limit fs ts2 m1 ?w2))"
    by simp
  moreover have "sent ?w2 = sent w1 @ [?rq]"
    "stderr ?w2 = stderr w1 @ [''Exception using Solr Text Tagger '' @ tagger @ '': '' @ str_exc py e @ [CHR 0x0A]]"
    "dm_default ?w2 = dm_default w1"
    using s se dd by (simp_all add: tagger_message_def)
  moreover have "\<forall>k. m1 k \<noteq> None \<longrightarrow>
                   fst (tagger_loop self py srv (Some t) limit fs ts2 m1 ?w2) k \<noteq> None"
    by (simp add: tagger_loop_keeps)
  ultimately show ?thesis by blast
qed

theorem tagger_failure_skipped_witness:
  "tagger_loop Entity_Linker_class python_sample
     (scripted [Inl (RequestException ''down''),
                reply [JObj [(''id'', JStr ''E1''), (''preferred_label_s'', JStr ''Paris'')]]])
     (Some ''I love Paris'') limit_default [] [] Map.empty world0 = (Map.empty, world0)
   \<and> scripted [Inl (RequestException ''down''),
                reply [JObj [(''id'', JStr ''E1''), (''preferred_label_s'', JStr ''Paris'')]]]
        (sent world0)
        (tagger_request Entity_Linker_class python_sample ''I love Paris'' limit_default
           ''tagger_a'' [])
      = Inl (RequestException ''down'')
   \<and> (\<exists>m w'. entities Entity_Linker_class python_sample
                 (scripted [Inl (RequestException ''down''),
                            reply [JObj [(''id'', JStr ''E1''),
                                         (''preferred_label_s'', JStr ''Paris'')]]])
                 None (Some ''I love Paris'') limit_default [''tagger_a'', ''tagger_b''] [] world0
               = (Inr m, w')
             \<and> m (JStr ''E1'')
               = Some \<lparr>result = [[(''id'', JStr ''E1''), (''name'', JStr ''Paris''),
                                   (''match'', JBool True), (''type'', JList [])]]\<rparr>
             \<and> stderr w' = [''Exception using Solr Text Tagger tagger_a: error'' @ [CHR 0x0A]]
             \<and> sent w' = [tagger_request Entity_Linker_class python_sample ''I love Paris''
                             limit_default ''tagger_a'' [],
                           tagger_request Entity_Linker_class python_sample ''I love Paris''
                             limit_default ''tagger_b'' []])"
proof -
  let ?srv = "scripted [Inl (RequestException ''down''),
                reply [JObj [(''id'', JStr ''E1''), (''preferred_label_s'', JStr ''Paris'')]]]"
  let ?rqa = "tagger_request Entity_Linker_class python_sample ''I love Paris'' limit_default
                ''tagger_a'' []"
  let ?rqb = "tagger_request Entity_Linker_class python_sample ''I love Paris'' limit_default
                ''tagger_b'' []"
  let ?e = "[(''id'', JStr ''E1''), (''name'', JStr ''Paris''),
             (''match'', JBool True), (''type'', JList [])]"
  have n: "(None :: (json \<times> (string \<times> json) list) list option) = None \<or> None = Some []"
    by simp
  have a: "tagger_loop Entity_Linker_class python_sample ?srv (Some ''I love Paris'')
             limit_default [] [] Map.empty world0 = (Map.empty, world0)"
    by simp
  have b: "?srv (sent world0) ?rqa = Inl (RequestException ''down'')"
    by (simp add: scripted_def world0_def)
  then have b': "?srv (sent world0) ?rqa = Inl (RequestException ''down'') \<or>
         (\<exists>r. ?srv (sent world0) ?rqa = Inr r \<and> r_json r = None \<and>
              RequestException ''down'' = JSONDecodeError)"
    by (rule disjI1)
  from tagger_failure_skipped[OF n a b', of "[''tagger_b'']"]
  obtain w2 where s: "sent w2 = sent world0 @ [?rqa]"
    and se: "stderr w2 = stderr world0 @
               [''Exception using Solr Text Tagger '' @ ''tagger_a'' @ '': ''
                @ str_exc python_sample (RequestException ''down'') @ [CHR 0x0A]]"
    and ent: "entities Entity_Linker_class python_sample ?srv None (Some ''I love Paris'')
                limit_default ([] @ ''tagger_a'' # [''tagger_b'']) [] world0 =
                (Inr (fst (tagger_loop Entity_Linker_class python_sample ?srv
                             (Some ''I love Paris'') limit_default [] [''tagger_b''] Map.empty w2)),
                 snd (tagger_loop Entity_Linker_class python_sample ?srv
                             (Some ''I love Paris'') limit_default [] [''tagger_b''] Map.empty w2))"
    by blast
  have s': "sent w2 = [?rqa]" using s by (simp add: world0_def)
  have se': "stderr w2 = [''Exception using Solr Text Tagger tagger_a: error'' @ [CHR 0x0A]]"
    using se by (simp add: world0_def python_sample_def)
  have loop: "tagger_loop Entity_Linker_class python_sample ?srv
                (Some ''I love Paris'') limit_default [] [''tagger_b''] Map.empty w2
              = ([JStr ''E1'' \<mapsto> \<lparr>result = [?e]\<rparr>], w2\<lparr>sent := [?rqa, ?rqb]\<rparr>)"
    by (simp add: dictionary_matcher_Some dictionary_matcher_on_def requests_send_def
          scripted_def reply_def response_docs_def and_then_def getitem_def print_verbose_def
          verbose_class sample_tag_Paris s')
  from ent loop se' show ?thesis
    using a b by simp
qed


subsection \<open>Several taggers\<close>

text \<open>
  C5. In \<^verbatim>\<open>entities\<close> without queries the taggers run in listed order on one dictionary.
  The dictionary returned has exactly the ids that some tagger wrote; each id maps to an
  entry whose result list holds one entity, the one of the last write for that id in the
  sequence of all writes (tagger after tagger, and record after record within a reply).
\<close>

theorem taggers_accumulate:
  assumes "queries = None \<or> queries = Some []"
  shows "\<exists>m w'. entities self py srv queries text limit taggers fs w = (Inr m, w') \<and>
           (\<forall>k. m k =
              (case map_of (rev (all_writes self py srv text limit fs taggers Map.empty w)) k of
                 None \<Rightarrow> None
               | Some e \<Rightarrow> Some \<lparr>result = [e]\<rparr>)) \<and>
           dom m = fst ` set (all_writes self py srv text limit fs taggers Map.empty w)"
proof -
  let ?ws = "all_writes self py srv text limit fs taggers Map.empty w"
  let ?m = "fst (tagger_loop self py srv text limit fs taggers Map.empty w)"
  have look: "?m k = (case map_of (rev ?ws) k of None \<Rightarrow> None | Some e \<Rightarrow> Some \<lparr>result = [e]\<rparr>)"
    for k
    by (simp add: tagger_loop_store store_writes_lookup)
  have "dom ?m = dom (map_of (rev ?ws))"
    by (auto simp: look dom_def split: option.splits)
  then have "dom ?m = fst ` set ?ws"
    by (simp add: dom_map_of_conv_image_fst)
  with look entities_no_queries[OF assms, of self py srv "text" limit taggers fs w]
  show ?thesis by blast
qed

lemma sample_tag_Rome:
  "tag_result [] (JObj [(''id'', JStr ''E2''), (''label_ss'', JList [JStr ''Rome''])])
   = Inr (JStr ''E2'', [(''id'', JStr ''E2''), (''name'', JStr ''Rome''),
                        (''match'', JBool True), (''type'', JList [])])"
  by (simp add: tag_result_def choose_label_def label_step_def and_then_def getitem_def
        add_fields_def choose_types_def)

lemma sample_tag_Roma:
  "tag_result [] (JObj [(''id'', JStr ''E2''), (''label_ss'', JList [JStr ''Roma''])])
   = Inr (JStr ''E2'', [(''id'', JStr ''E2''), (''name'', JStr ''Roma''),
                        (''match'', JBool True), (''type'', JList [])])"
  by (simp add: tag_result_def choose_label_def label_step_def and_then_def getitem_def
        add_fields_def choose_types_def)

theorem taggers_accumulate_witness:
  "\<exists>m w'. entities Entity_Linker_class python_sample
             (scripted [reply [JObj [(''id'', JStr ''E1''), (''preferred_label_s'', JStr ''Paris'')],
                               JObj [(''id'', JStr ''E2''), (''label_ss'', JList [JStr ''Rome''])]],
                        reply [JObj [(''id'', JStr ''E2''), (''label_ss'', JList [JStr ''Roma''])]]])
             None (Some ''Paris and Rome'') limit_default [''tagger_a'', ''tagger_b''] [] world0
           = (Inr m, w')
         \<and> m (JStr ''E1'')
           = Some \<lparr>result = [[(''id'', JStr ''E1''), (''name'', JStr ''Paris''),
                               (''match'', JBool True), (''type'', JList [])]]\<rparr>
         \<and> m (JStr ''E2'')
           = Some \<lparr>result = [[(''id'', JStr ''E2''), (''name'', JStr ''Roma''),
                               (''match'', JBool True), (''type'', JList [])]]\<rparr>
         \<and> m (JStr ''E3'') = None
         \<and> dom m = {JStr ''E1'', JStr ''E2''}"
proof -
  let ?srv = "scripted [reply [JObj [(''id'', JStr ''E1''), (''preferred_label_s'', JStr ''Paris'')],
                               JObj [(''id'', JStr ''E2''), (''label_ss'', JList [JStr ''Rome''])]],
                        reply [JObj [(''id'', JStr ''E2''), (''label_ss'', JList [JStr ''Roma''])]]]"
  let ?paris = "[(''id'', JStr ''E1''), (''name'', JStr ''Paris''),
                 (''match'', JBool True), (''type'', JList [])]"
  let ?rome = "[(''id'', JStr ''E2''), (''name'', JStr ''Rome''),
                (''match'', JBool True), (''type'', JList [])]"
  let ?roma = "[(''id'', JStr ''E2''), (''name'', JStr ''Roma''),
                (''match'', JBool True), (''type'', JList [])]"
  have n: "(None :: (json \<times> (string \<times> json) list) list option) = None \<or> None = Some []"
    by simp
  have aw: "all_writes Entity_Linker_class python_sample ?srv (Some ''Paris and Rome'')
              limit_default [] [''tagger_a'', ''tagger_b''] Map.empty world0
            = [(JStr ''E1'', ?paris), (JStr ''E2'', ?rome), (JStr ''E2'', ?roma)]"
    by (simp add: tagger_writes_def tagger_docs_def dictionary_matcher_Some
          dictionary_matcher_on_def requests_send_def scripted_def reply_def response_docs_def
          and_then_def getitem_def print_verbose_def verbose_class world0_def
          sample_tag_Paris sample_tag_Rome sample_tag_Roma)
  from taggers_accumulate[OF n, of Entity_Linker_class python_sample ?srv
         "Some ''Paris and Rome''" limit_default "[''tagger_a'', ''tagger_b'']" "[]" world0]
  obtain m w' where
    ent: "entities Entity_Linker_class python_sample ?srv None (Some ''Paris and Rome'')
            limit_default [''tagger_a'', ''tagger_b''] [] world0 = (Inr m, w')"
    and look: "\<And>k. m k =
              (case map_of (rev (all_writes Entity_Linker_class python_sample ?srv
                                  (Some ''Paris and Rome'') limit_default []
                                  [''tagger_a'', ''tagger_b''] Map.empty world0)) k of
                 None \<Rightarrow> None
               | Some e \<Rightarrow> Some \<lparr>result = [e]\<rparr>)"
    and d: "dom m = fst ` set (all_writes Entity_Linker_class python_sample ?srv
                                  (Some ''Paris and Rome'') limit_default []
                                  [''tagger_a'', ''tagger_b''] Map.empty world0)"
    by blast
  have "m (JStr ''E1'') = Some \<lparr>result = [?paris]\<rparr>" unfolding look aw by simp
  moreover have "m (JStr ''E2'') = Some \<lparr>result = [?roma]\<rparr>" unfolding look aw by simp
  moreover have "m (JStr ''E3'') = None" unfolding look aw by simp
  moreover have "dom m = {JStr ''E1'', JStr ''E2''}" unfolding d aw by simp
  ultimately show ?thesis using ent by blast
qed


subsection \<open>The shared default dictionary\<close>

text \<open>
  C9. When \<^verbatim>\<open>normalized_entities\<close> is omitted, \<^verbatim>\<open>dictionary_matcher\<close> writes into the one
  default dictionary and returns it. Of two successive calls with the same arguments,
  the second returns the dictionary of the first with its own writes added, so it holds
  every key the first returned; the same call on a new dictionary returns its own writes
  only. The result of a call therefore depends on the calls made before it.
\<close>

theorem shared_default_accumulates:
  assumes "dictionary_matcher self py srv text limit tagger None fs w = (r1, m1, w1)"
    and "dictionary_matcher self py srv text limit tagger None fs w1 = (r2, m2, w2)"
  shows "m2 = store_writes (tagger_writes self py srv text limit tagger fs w1) m1 \<and>
         dom m1 \<subseteq> dom m2 \<and> dm_default w2 = m2 \<and>
         fst (snd (dictionary_matcher self py srv text limit tagger (Some Map.empty) fs w1)) =
           store_writes (tagger_writes self py srv text limit tagger fs w1) Map.empty"
proof -
  from dictionary_matcher_store[OF assms(1)] have d1: "dm_default w1 = m1" by simp
  from dictionary_matcher_store[OF assms(2)] d1
  have m2: "m2 = store_writes (tagger_writes self py srv text limit tagger fs w1) m1"
    and d2: "dm_default w2 = m2" by simp_all
  have "dom m1 \<subseteq> dom m2"
    unfolding m2 using store_writes_keeps by (auto simp: dom_def)
  moreover have "fst (snd (dictionary_matcher self py srv text limit tagger (Some Map.empty) fs w1)) =
           store_writes (tagger_writes self py srv text limit tagger fs w1) Map.empty"
    using dictionary_matcher_store[of self py srv "text" limit tagger "Some Map.empty" fs w1
            "fst (dictionary_matcher self py srv text limit tagger (Some Map.empty) fs w1)"
            "fst (snd (dictionary_matcher self py srv text limit tagger (Some Map.empty) fs w1))"
            "snd (snd (dictionary_matcher self py srv text limit tagger (Some Map.empty) fs w1))"]
    by simp
  ultimately show ?thesis using m2 d2 by blast
qed

theorem shared_default_accumulates_witness:
  "\<exists>r1 m1 w1 r2 m2 w2.
     dictionary_matcher Entity_Linker_class python_sample
       (scripted [reply [JObj [(''id'', JStr ''E1''), (''preferred_label_s'', JStr ''Paris'')]],
                  reply [JObj [(''id'', JStr ''E2''), (''label_ss'', JList [JStr ''Rome''])]]])
       (Some ''some text'') limit_default tagger_default None [] world0 = (r1, m1, w1)
     \<and> dictionary_matcher Entity_Linker_class python_sample
       (scripted [reply [JObj [(''id'', JStr ''E1''), (''preferred_label_s'', JStr ''Paris'')]],
                  reply [JObj [(''id'', JStr ''E2''), (''label_ss'', JList [JStr ''Rome''])]]])
       (Some ''some text'') limit_default tagger_default None [] w1 = (r2, m2, w2)
     \<and> dom m1 = {JStr ''E1''}
     \<and> dom m2 = {JStr ''E1'', JStr ''E2''}
     \<and> dom (fst (snd (dictionary_matcher Entity_Linker_class python_sample
       (scripted [reply [JObj [(''id'', JStr ''E1''), (''preferred_label_s'', JStr ''Paris'')]],
                  reply [JObj [(''id'', JStr ''E2''), (''label_ss'', JList [JStr ''Rome''])]]])
       (Some ''some text'') limit_default tagger_default (Some Map.empty) [] w1)))
       = {JStr ''E2''}"
proof -
  let ?srv = "scripted [reply [JObj [(''id'', JStr ''E1''), (''preferred_label_s'', JStr ''Paris'')]],
                  reply [JObj [(''id'', JStr ''E2''), (''label_ss'', JList [JStr ''Rome''])]]]"
  let ?paris = "[(''id'', JStr ''E1''), (''name'', JStr ''Paris''),
                 (''match'', JBool True), (''type'', JList [])]"
  let ?rome = "[(''id'', JStr ''E2''), (''name'', JStr ''Rome''),
                (''match'', JBool True), (''type'', JList [])]"
  let ?rq = "tagger_request Entity_Linker_class python_sample ''some text'' limit_default
               tagger_default []"
  obtain r1 m1 w1 where c1: "dictionary_matcher Entity_Linker_class python_sample ?srv
       (Some ''some text'') limit_default tagger_default None [] world0 = (r1, m1, w1)"
    by (cases "dictionary_matcher Entity_Linker_class python_sample ?srv
       (Some ''some text'') limit_default tagger_default None [] world0")
  obtain r2 m2 w2 where c2: "dictionary_matcher Entity_Linker_class python_sample ?srv
       (Some ''some text'') limit_default tagger_default None [] w1 = (r2, m2, w2)"
    by (cases "dictionary_matcher Entity_Linker_class python_sample ?srv
       (Some ''some text'') limit_default tagger_default None [] w1")
  from c1 have m1: "m1 = [JStr ''E1'' \<mapsto> \<lparr>result = [?paris]\<rparr>]" and s1: "sent w1 = [?rq]"
    by (auto simp: dictionary_matcher_def dictionary_matcher_on_def requests_send_def
          scripted_def reply_def response_docs_def and_then_def getitem_def print_verbose_def
          verbose_class world0_def sample_tag_Paris)
  have tw: "tagger_writes Entity_Linker_class python_sample ?srv (Some ''some text'')
              limit_default tagger_default [] w1 = [(JStr ''E2'', ?rome)]"
    by (simp add: tagger_writes_def tagger_docs_def scripted_def reply_def response_docs_def
          and_then_def getitem_def s1 sample_tag_Rome)
  note acc = shared_default_accumulates[OF c1 c2]
  from acc have m2: "m2 = [JStr ''E1'' \<mapsto> \<lparr>result = [?paris]\<rparr>,
                           JStr ''E2'' \<mapsto> \<lparr>result = [?rome]\<rparr>]"
    unfolding tw m1 by (simp add: store_writes_def)
  from acc have fresh: "fst (snd (dictionary_matcher Entity_Linker_class python_sample ?srv
       (Some ''some text'') limit_default tagger_default (Some Map.empty) [] w1))
       = [JStr ''E2'' \<mapsto> \<lparr>result = [?rome]\<rparr>]"
    unfolding tw by (simp add: store_writes_def)
  have "dom m1 = {JStr ''E1''}" by (simp add: m1)
  moreover have "dom m2 = {JStr ''E1'', JStr ''E2''}" by (auto simp: m2)
  moreover have "dom (fst (snd (dictionary_matcher Entity_Linker_class python_sample ?srv
       (Some ''some text'') limit_default tagger_default (Some Map.empty) [] w1)))
       = {JStr ''E2''}"
    unfolding fresh by simp
  ultimately show ?thesis using c1 c2 by blast
qed


end
